theory Spec2Isabelle
  imports Main "HOL-Library.Word" "HOL-Library.Sublist"
begin

chapter \<open>The dependency watchdog: scaler, retry helpers, pod watcher and validator\<close>

text \<open>
  The first part is the model: the Go functions of the prober's scaler and validator, of
  the retry helpers of package util and of the weeder's pod watcher, as functions on an
  explicit state. The second part states and proves their properties.
\<close>

section \<open>Shared vocabulary: errors, faults, time and contexts\<close>

text \<open>
  Go's \<open>error\<close> interface is modelled by one datatype. \<open>NotFound\<close> is the API server's
  not-found status for a named object, \<open>ContextCanceled\<close> and \<open>DeadlineExceeded\<close> are the two
  values \<open>ctx.Err()\<close> can return, \<open>MustHaveValueGreaterThan key lowerLimit\<close> is the error
  built by \<open>fmt.Errorf("%s must have a value greater than %d. ...", key, lowerLimit, value)\<close>
  in the validator, and \<open>OtherError\<close> is any other error, named by its message.
\<close>

datatype error =
    NotFound string
  | ContextCanceled
  | DeadlineExceeded
  | MustHaveValueGreaterThan string int
  | OtherError string

text \<open>A run-time panic of the Go program is a value of its own, never an \<open>error\<close>.\<close>

datatype fault = NilPointerDereference | TypeAssertionFailed

text \<open>
  Time is a logical clock counting nanoseconds, the unit of \<open>time.Duration\<close>; a duration is
  an \<open>int\<close> and a sleep of a negative duration returns at once (\<open>nat d = 0\<close>). Every state
  the helpers run on extends the record \<open>clocked\<close>. Calls to the API server take no time on
  this clock: time passes in sleeps only.

  A \<open>context.Context\<close> is the instant at which its \<open>Done\<close> channel is closed (\<open>None\<close>: never)
  and the error \<open>ctx.Err()\<close> reports from then on.
\<close>

type_synonym Duration = int

definition Millisecond :: Duration where
  "Millisecond = 1000000"

record clocked =
  now :: nat

record Context =
  doneAt :: "nat option"
  cause :: error

definition ctxDone :: "Context \<Rightarrow> 'm clocked_scheme \<Rightarrow> bool" where
  "ctxDone ctx s = (case doneAt ctx of None \<Rightarrow> False | Some t \<Rightarrow> t \<le> now s)"

text \<open>\<open>time.Sleep(d)\<close>: the caller is suspended for the whole duration, whatever happens.\<close>

definition Sleep :: "Duration \<Rightarrow> 'm clocked_scheme \<Rightarrow> 'm clocked_scheme" where
  "Sleep d s = s\<lparr>now := now s + nat d\<rparr>"

text \<open>
  \<open>select { case <-ctx.Done(): ... case <-time.After(d): ... }\<close>: the branch whose channel
  is ready first is taken, and the clock stands at that instant. The result is \<open>True\<close> for
  the \<open>Done\<close> branch. Where both are ready at the same instant Go chooses at random; the
  model takes the \<open>Done\<close> branch.
\<close>

definition selectDoneOrAfter :: "Context \<Rightarrow> Duration \<Rightarrow> 'm clocked_scheme \<Rightarrow> bool \<times> 'm clocked_scheme" where
  "selectDoneOrAfter ctx d s =
     (case doneAt ctx of
        None \<Rightarrow> (False, s\<lparr>now := now s + nat d\<rparr>)
      | Some t \<Rightarrow>
          if t \<le> now s + nat d then (True, s\<lparr>now := max (now s) t\<rparr>)
          else (False, s\<lparr>now := now s + nat d\<rparr>))"

text \<open>
  Modelled from the spec: \<open>util.SleepWithContext\<close> is not among the sources; the scale
  action "sleeps \<open>r.initialDelay\<close> or aborts on cancellation", returning the context's
  error in the second case.
\<close>

definition SleepWithContext :: "Context \<Rightarrow> Duration \<Rightarrow> 'm clocked_scheme \<Rightarrow> error option \<times> 'm clocked_scheme" where
  "SleepWithContext ctx sleepFor s =
     (case selectDoneOrAfter ctx sleepFor s of
        (True, s') \<Rightarrow> (Some (cause ctx), s')
      | (False, s') \<Rightarrow> (None, s'))"

section \<open>Bounded and unbounded retry (package util)\<close>

text \<open>
  \<open>RetryResult[T]\<close> holds a value of \<open>T\<close> and an error; \<open>None\<close> is the zero value of \<open>T\<close>
  and the nil error. The function \<open>fn\<close> acts on the state and returns its pair of results,
  or panics. \<open>Retry\<close> returns its result, the state it leaves, and the record of what it
  did: one \<open>Attempt\<close> for each call of \<open>fn\<close>, with what the call returned, and one
  \<open>Backoff\<close> for each time it entered the \<open>select\<close> on \<open>time.After(backOff)\<close>, with the
  time spent there.

  The loop counter \<open>i\<close> is an \<open>int\<close>: it runs from 1 to \<open>numAttempts\<close> and cannot overflow
  for a bound below the largest value of Go's \<open>int\<close>.
\<close>

record 'a RetryResult =
  Value :: "'a option"
  Err :: "error option"

datatype 'a retryEvent =
    Attempt "fault + ('a option \<times> error option)"
  | Backoff nat

function RetryLoop ::
  "Context \<Rightarrow> ('m clocked_scheme \<Rightarrow> (fault + ('a option \<times> error option)) \<times> 'm clocked_scheme)
     \<Rightarrow> int \<Rightarrow> Duration \<Rightarrow> (error \<Rightarrow> bool) \<Rightarrow> int \<Rightarrow> 'a option \<Rightarrow> error option
     \<Rightarrow> 'm clocked_scheme
     \<Rightarrow> (fault + 'a RetryResult) \<times> 'm clocked_scheme \<times> 'a retryEvent list" where
  "RetryLoop ctx fn numAttempts backOff canRetry i result err s =
     (if i \<le> numAttempts then
        if ctxDone ctx s then (Inr \<lparr>Value = None, Err = Some (cause ctx)\<rparr>, s, [])
        else
          (case fn s of
             (Inl f, s1) \<Rightarrow> (Inl f, s1, [Attempt (Inl f)])
           | (Inr (result', None), s1) \<Rightarrow>
               (Inr \<lparr>Value = result', Err = None\<rparr>, s1, [Attempt (Inr (result', None))])
           | (Inr (result', Some e), s1) \<Rightarrow>
               if \<not> canRetry e
               then (Inr \<lparr>Value = None, Err = Some e\<rparr>, s1, [Attempt (Inr (result', Some e))])
               else
                 (case selectDoneOrAfter ctx backOff s1 of
                    (True, s2) \<Rightarrow>
                      (Inr \<lparr>Value = None, Err = Some (cause ctx)\<rparr>, s2,
                       [Attempt (Inr (result', Some e)), Backoff (now s2 - now s1)])
                  | (False, s2) \<Rightarrow>
                      (case RetryLoop ctx fn numAttempts backOff canRetry (i + 1) result' (Some e) s2 of
                         (r, s3, evs) \<Rightarrow>
                           (r, s3, Attempt (Inr (result', Some e)) # Backoff (now s2 - now s1) # evs))))
      else (Inr \<lparr>Value = result, Err = err\<rparr>, s, []))"
  by pat_completeness auto
termination
  by (relation "measure (\<lambda>(ctx, fn, numAttempts, backOff, canRetry, i, result, err, s). nat (numAttempts + 1 - i))") auto

definition Retry ::
  "Context \<Rightarrow> ('m clocked_scheme \<Rightarrow> (fault + ('a option \<times> error option)) \<times> 'm clocked_scheme)
     \<Rightarrow> int \<Rightarrow> Duration \<Rightarrow> (error \<Rightarrow> bool) \<Rightarrow> 'm clocked_scheme
     \<Rightarrow> (fault + 'a RetryResult) \<times> 'm clocked_scheme \<times> 'a retryEvent list" where
  "Retry ctx fn numAttempts backOff canRetry s =
     RetryLoop ctx fn numAttempts backOff canRetry 1 None None s"

definition AlwaysRetry :: "error \<Rightarrow> bool" where
  "AlwaysRetry err = True"

text \<open>
  \<open>RetryOnError\<close> loops for as long as the function fails and the context is not done, so
  it may never return. The first argument bounds the number of iterations the model
  follows, and the status says how the run ended: the function returned, it panicked, or
  it is still in its loop after that many iterations. Each iteration that fails sleeps
  with \<open>time.Sleep(interval)\<close>. The result is the status, the state then, and the number of
  calls of the function.
\<close>

datatype exitStatus = Returned | Panicked fault | StillRunning

fun RetryOnError ::
  "nat \<Rightarrow> Context \<Rightarrow> ('m clocked_scheme \<Rightarrow> (fault + error option) \<times> 'm clocked_scheme)
     \<Rightarrow> Duration \<Rightarrow> 'm clocked_scheme \<Rightarrow> exitStatus \<times> 'm clocked_scheme \<times> nat" where
  "RetryOnError 0 ctx retriableFn interval s = (StillRunning, s, 0)"
| "RetryOnError (Suc fuel) ctx retriableFn interval s =
     (if ctxDone ctx s then (Returned, s, 0)
      else
        (case retriableFn s of
           (Inl f, s1) \<Rightarrow> (Panicked f, s1, 1)
         | (Inr (Some err), s1) \<Rightarrow>
             (case RetryOnError fuel ctx retriableFn interval (Sleep interval s1) of
                (status, s2, k) \<Rightarrow> (status, s2, Suc k))
         | (Inr None, s1) \<Rightarrow> (Returned, s1, 1)))"

section \<open>The scaler (internal/prober/scaler.go)\<close>

subsection \<open>Data\<close>

text \<open>
  \<open>replicas\<close> is an \<open>int32\<close>: a 32-bit word read as two's complement by the signed
  comparison \<open><s\<close>. A slice is a list, the nil slice the empty list.
\<close>

record CrossVersionObjectReference =
  Kind :: string
  Name :: string
  APIVersion :: string

record scaleableResourceInfo =
  ref :: CrossVersionObjectReference
  level :: int
  initialDelay :: Duration
  timeout :: Duration
  replicas :: "32 word"

type_synonym mismatchReplicasCheckFn = "32 word \<Rightarrow> 32 word \<Rightarrow> bool"

text \<open>
  Modelled from the spec: \<open>util.ScaleUpReplicasMismatch\<close> is not among the sources;
  "scale-up uses current < target".
\<close>

definition ScaleUpReplicasMismatch :: mismatchReplicasCheckFn where
  "ScaleUpReplicasMismatch replicas' targetReplicas = (replicas' <s targetReplicas)"

text \<open>
  Modelled from the spec: \<open>util.ScaleDownReplicasMismatch\<close> is not among the sources;
  "scale-down uses current > target".
\<close>

definition ScaleDownReplicasMismatch :: mismatchReplicasCheckFn where
  "ScaleDownReplicasMismatch replicas' targetReplicas = (targetReplicas <s replicas')"

text \<open>
  Of a Deployment the scaler reads the name, the annotations, \<open>Spec.Replicas\<close> (a
  \<open>*int32\<close>, \<open>None\<close> for nil) and \<open>Status.Replicas\<close>; of the scale subresource it writes
  \<open>Spec.Replicas\<close>.
\<close>

record Deployment =
  DeploymentName :: string
  Annotations :: "string \<rightharpoonup> string"
  SpecReplicas :: "32 word option"
  StatusReplicas :: "32 word"

record Scale =
  ScaleName :: string
  ScaleSpecReplicas :: "32 word"

type_synonym GroupVersion = "string \<times> string"
type_synonym GroupKind = "string \<times> string"
type_synonym GroupResource = "string \<times> string"

text \<open>
  The cluster behind the API server has a state of an arbitrary type \<open>'c\<close>. The
  controller-runtime client and the scale client are parameters: what a read returns in a
  cluster state, and what an update returns and the cluster state it leaves. The error of
  \<open>schema.ParseGroupVersion\<close> is dropped by the scaler, so the parameter returns the
  group/version only.
\<close>

record 'c Client =
  Get :: "'c \<Rightarrow> string \<Rightarrow> string \<Rightarrow> error + Deployment"
  ParseGroupVersion :: "string \<Rightarrow> GroupVersion"
  RESTMapping :: "GroupKind \<Rightarrow> string \<Rightarrow> error + GroupResource"

record 'c ScaleInterface =
  ScaleGet :: "'c \<Rightarrow> GroupResource \<Rightarrow> string \<Rightarrow> error + Scale"
  ScaleUpdate :: "'c \<Rightarrow> GroupResource \<Rightarrow> Scale \<Rightarrow> (error + Scale) \<times> 'c"

text \<open>
  \<open>deploymentScaler\<close> without its two compiled flows, which none of its methods modelled
  here reads.
\<close>

record 'c deploymentScaler =
  namespace :: string
  scaler :: "'c ScaleInterface"
  client :: "'c Client"

text \<open>
  The state the scaler runs on: the clock, the cluster, and the log of the calls made to
  the API server, in order. Only \<open>ScaleUpdateCall\<close> is a write.
\<close>

datatype apiCall =
    GetDeploymentCall string string
  | ScaleGetCall GroupResource string
  | ScaleUpdateCall GroupResource string "32 word"

record 'c world = clocked +
  cluster :: 'c
  calls :: "apiCall list"

fun isWrite :: "apiCall \<Rightarrow> bool" where
  "isWrite (ScaleUpdateCall gr name' r) = True"
| "isWrite call = False"

definition writes :: "'c world \<Rightarrow> apiCall list" where
  "writes s = filter isWrite (calls s)"

subsection \<open>The scale action\<close>

definition ignoreScalingAnnotationKey :: string where
  "ignoreScalingAnnotationKey = ''dependency-watchdog.gardener.cloud/ignore-scaling''"

definition defaultMaxResourceScalingAttempts :: int where
  "defaultMaxResourceScalingAttempts = 3"

definition defaultScaleResourceBackoff :: Duration where
  "defaultScaleResourceBackoff = 100 * Millisecond"

definition isIgnoreScalingAnnotationSet :: "Deployment \<Rightarrow> bool" where
  "isIgnoreScalingAnnotationSet deployment =
     (case Annotations deployment ignoreScalingAnnotationKey of
        Some val \<Rightarrow> val = ''true''
      | None \<Rightarrow> False)"

text \<open>
  Modelled from the spec: \<open>util.GetDeploymentFor\<close> is not among the sources; it
  "fetches the current workload" of the given name in the namespace through the client
  and returns it, or the client's error.
\<close>

definition GetDeploymentFor ::
  "string \<Rightarrow> string \<Rightarrow> 'c Client \<Rightarrow> 'c world \<Rightarrow> (error + Deployment) \<times> 'c world" where
  "GetDeploymentFor namespace' name' cl s =
     (Get cl (cluster s) namespace' name',
      s\<lparr>calls := calls s @ [GetDeploymentCall namespace' name']\<rparr>)"

definition getGroupResource ::
  "'c deploymentScaler \<Rightarrow> CrossVersionObjectReference \<Rightarrow> error + GroupResource" where
  "getGroupResource ds resourceRef =
     (let gv = ParseGroupVersion (client ds) (APIVersion resourceRef);
          gk = (fst gv, Kind resourceRef)
      in RESTMapping (client ds) gk (snd gv))"

definition doScale ::
  "'c deploymentScaler \<Rightarrow> scaleableResourceInfo \<Rightarrow> 'c world \<Rightarrow> (error + Scale) \<times> 'c world" where
  "doScale ds resourceInfo s =
     (case getGroupResource ds (ref resourceInfo) of
        Inl err \<Rightarrow> (Inl err, s)
      | Inr gr \<Rightarrow>
          (let s1 = s\<lparr>calls := calls s @ [ScaleGetCall gr (Name (ref resourceInfo))]\<rparr> in
           case ScaleGet (scaler ds) (cluster s) gr (Name (ref resourceInfo)) of
             Inl err \<Rightarrow> (Inl err, s1)
           | Inr scale \<Rightarrow>
               (let scale' = scale\<lparr>ScaleSpecReplicas := replicas resourceInfo\<rparr>;
                    (r, c') = ScaleUpdate (scaler ds) (cluster s1) gr scale'
                in (r, s1\<lparr>cluster := c',
                          calls := calls s1 @ [ScaleUpdateCall gr (ScaleName scale') (ScaleSpecReplicas scale')]\<rparr>))))"

text \<open>The loop of \<open>shouldScale\<close> over the upstream resources to wait on.\<close>

fun waitOnLoop ::
  "'c deploymentScaler \<Rightarrow> mismatchReplicasCheckFn \<Rightarrow> scaleableResourceInfo list \<Rightarrow> 'c world
     \<Rightarrow> bool \<times> 'c world" where
  "waitOnLoop ds mismatchReplicas [] s = (True, s)"
| "waitOnLoop ds mismatchReplicas (upstreamDependentResource # rest) s =
     (case GetDeploymentFor (namespace ds) (Name (ref upstreamDependentResource)) (client ds) s of
        (Inl err, s1) \<Rightarrow> (False, s1)
      | (Inr upstreamDeployment, s1) \<Rightarrow>
          if mismatchReplicas (StatusReplicas upstreamDeployment) (replicas upstreamDependentResource)
          then (False, s1)
          else waitOnLoop ds mismatchReplicas rest s1)"

definition shouldScale ::
  "'c deploymentScaler \<Rightarrow> Deployment \<Rightarrow> 32 word \<Rightarrow> mismatchReplicasCheckFn
     \<Rightarrow> scaleableResourceInfo list \<Rightarrow> 'c world \<Rightarrow> (fault + bool) \<times> 'c world" where
  "shouldScale ds deployment targetReplicas mismatchReplicas waitOnResourceInfos s =
     (if isIgnoreScalingAnnotationSet deployment then (Inr False, s)
      else
        (case SpecReplicas deployment of
           None \<Rightarrow> (Inl NilPointerDereference, s)
         | Some deploymentSpecReplicas \<Rightarrow>
             if \<not> mismatchReplicas deploymentSpecReplicas targetReplicas then (Inr False, s)
             else
               (case waitOnLoop ds mismatchReplicas waitOnResourceInfos s of
                  (b, s1) \<Rightarrow> (Inr b, s1))))"

definition scale ::
  "'c deploymentScaler \<Rightarrow> Context \<Rightarrow> scaleableResourceInfo \<Rightarrow> mismatchReplicasCheckFn
     \<Rightarrow> scaleableResourceInfo list \<Rightarrow> 'c world \<Rightarrow> (fault + error option) \<times> 'c world" where
  "scale ds ctx resourceInfo mismatchReplicas waitOnResourceInfos s =
     (case GetDeploymentFor (namespace ds) (Name (ref resourceInfo)) (client ds) s of
        (Inl err, s1) \<Rightarrow> (Inr (Some err), s1)
      | (Inr deployment, s1) \<Rightarrow>
          (case SleepWithContext ctx (initialDelay resourceInfo) s1 of
             (Some err, s2) \<Rightarrow> (Inr (Some err), s2)
           | (None, s2) \<Rightarrow>
               (case shouldScale ds deployment (replicas resourceInfo) mismatchReplicas
                       waitOnResourceInfos s2 of
                  (Inl f, s3) \<Rightarrow> (Inl f, s3)
                | (Inr True, s3) \<Rightarrow>
                    (case Retry ctx
                            (\<lambda>w. case doScale ds resourceInfo w of
                                    (Inl err, w') \<Rightarrow> (Inr (None, Some err), w')
                                  | (Inr sc, w') \<Rightarrow> (Inr (Some sc, None), w'))
                            defaultMaxResourceScalingAttempts defaultScaleResourceBackoff
                            AlwaysRetry s3 of
                       (r, s4, evs) \<Rightarrow> (Inr None, s4))
                | (Inr False, s3) \<Rightarrow> (Inr None, s3))))"

text \<open>
  The body of the closure that \<open>createScaleTaskFn\<close> builds for one record: \<open>scale\<close> under
  \<open>util.Retry\<close>, returning the error of the result. The package constant
  \<open>defaultGetSecretBackoff\<close> is declared outside the sources and is a parameter.
\<close>

definition scaleTask ::
  "'c deploymentScaler \<Rightarrow> Duration \<Rightarrow> scaleableResourceInfo \<Rightarrow> mismatchReplicasCheckFn
     \<Rightarrow> scaleableResourceInfo list \<Rightarrow> Context \<Rightarrow> 'c world \<Rightarrow> (fault + error option) \<times> 'c world" where
  "scaleTask ds defaultGetSecretBackoff resourceInfo mismatchReplicas waitOnResourceInfos ctx s =
     (case Retry ctx
             (\<lambda>w. case scale ds ctx resourceInfo mismatchReplicas waitOnResourceInfos w of
                     (Inl f, w') \<Rightarrow> (Inl f, w')
                   | (Inr err, w') \<Rightarrow> (Inr (None :: unit option, err), w'))
             defaultMaxResourceScalingAttempts defaultGetSecretBackoff AlwaysRetry s of
        (Inl f, s', evs) \<Rightarrow> (Inl f, s')
      | (Inr result, s', evs) \<Rightarrow> (Inr (Err result), s'))"

subsection \<open>Task functions and the flow\<close>

text \<open>
  A \<open>flow.TaskFn\<close> is a function value. The scaler builds three kinds of them, and the
  model keeps what each one was built from: the nil function; the closure of
  \<open>createScaleTaskFn\<close>, with the variables it captures (the namespace, its record, the
  mismatch predicate and the records to wait on; running it is \<open>scaleTask\<close>); and
  \<open>flow.Parallel(fns...)\<close> of a list of functions. The closure captures the loop variable
  \<open>resourceInfo\<close>, which is a new variable in each iteration (Go 1.22 and later).
\<close>

datatype TaskFn =
    NilTaskFn
  | ScaleTaskFn string scaleableResourceInfo mismatchReplicasCheckFn "scaleableResourceInfo list"
  | Parallel "TaskFn list"

definition createScaleTaskFn ::
  "string \<Rightarrow> scaleableResourceInfo list \<Rightarrow> mismatchReplicasCheckFn
     \<Rightarrow> scaleableResourceInfo list \<Rightarrow> TaskFn" where
  "createScaleTaskFn namespace' resourceInfos mismatchReplicasCheckFn' waitOnResourceInfos =
     (if length resourceInfos = 0 then NilTaskFn
      else
        (let taskFns = replicate (length resourceInfos) NilTaskFn;
             taskFns = fold (\<lambda>resourceInfo fns.
                               fns @ [ScaleTaskFn namespace' resourceInfo mismatchReplicasCheckFn'
                                        waitOnResourceInfos])
                            resourceInfos taskFns
         in if length resourceInfos = 1 then taskFns ! 0 else Parallel taskFns))"

text \<open>
  A \<open>flow.TaskID\<close> is a string, and \<open>Graph.Add\<close> returns the task's name as its ID. The
  only names the scaler builds are
  \<open>fmt.Sprintf("scaling dependencies %v at level %d", resInfos, level)\<close>, kept here as
  the two values formatted; \<open>EmptyTaskID\<close> is the empty string, the zero value of the type.
\<close>

datatype TaskID =
    EmptyTaskID
  | ScalingDependenciesAtLevel "scaleableResourceInfo list" int

record Task =
  TaskName :: TaskID
  Fn :: TaskFn
  Dependencies :: "TaskID set"

record Graph =
  GraphName :: string
  tasks :: "Task list"

text \<open>
  Modelled from the spec: the flow library is not among the sources; a graph is "an
  append-only collection of tasks".
\<close>

definition NewGraph :: "string \<Rightarrow> Graph" where
  "NewGraph name' = \<lparr>GraphName = name', tasks = []\<rparr>"

text \<open>
  Modelled from the spec: the flow library is not among the sources; "\<open>Add(task)\<close>
  returns a fresh TaskID", which is the task's name.
\<close>

definition Add :: "Graph \<Rightarrow> Task \<Rightarrow> Graph \<times> TaskID" where
  "Add g task = (g\<lparr>tasks := tasks g @ [task]\<rparr>, TaskName task)"

text \<open>
  Modelled from the spec: the flow library is not among the sources; the dependencies
  of a task are a "set of TaskID", here the set of the IDs given.
\<close>

definition NewTaskIDs :: "TaskID list \<Rightarrow> TaskID set" where
  "NewTaskIDs ids = set ids"

text \<open>
  Modelled from the spec: the flow library is not among the sources; compiling
  "produces a runnable Flow" with the nodes of the graph.
\<close>

definition Compile :: "Graph \<Rightarrow> Graph" where
  "Compile g = g"

definition Len :: "Graph \<Rightarrow> nat" where
  "Len f = length (tasks f)"

text \<open>Go's built-in \<open>copy(dst, src)\<close>: the slice \<open>dst\<close> after the call.\<close>

definition copy :: "'a list \<Rightarrow> 'a list \<Rightarrow> 'a list" where
  "copy dst src =
     (let n = min (length dst) (length src) in take n src @ drop n dst)"

definition collectResourceInfosByLevel ::
  "scaleableResourceInfo list \<Rightarrow> (int \<rightharpoonup> scaleableResourceInfo list)" where
  "collectResourceInfosByLevel resourceInfos =
     fold (\<lambda>resInfo resInfosByLevel.
             case resInfosByLevel (level resInfo) of
               None \<Rightarrow> resInfosByLevel(level resInfo \<mapsto> [] @ [resInfo])
             | Some levelResInfos \<Rightarrow> resInfosByLevel(level resInfo \<mapsto> levelResInfos @ [resInfo]))
          resourceInfos Map.empty"

definition sortAndGetUniqueLevels :: "scaleableResourceInfo list \<Rightarrow> int list" where
  "sortAndGetUniqueLevels resourceInfos =
     sort (fst (fold (\<lambda>resInfo (levels, keys).
                        if keys (level resInfo) = None
                        then (levels @ [level resInfo], keys(level resInfo \<mapsto> True))
                        else (levels, keys))
                     resourceInfos ([], Map.empty :: int \<rightharpoonup> bool)))"

text \<open>
  One iteration of the loop of \<open>createResourceScaleFlow\<close> over the levels. The state of
  the loop is the graph and the slice \<open>previousLevelResourceInfos\<close>; \<open>previousTaskID\<close> is
  declared inside the loop body, so each iteration starts from its zero value and its
  assignment at the end of the body is not read by anything.
\<close>

definition flowStep ::
  "string \<Rightarrow> mismatchReplicasCheckFn \<Rightarrow> (int \<rightharpoonup> scaleableResourceInfo list) \<Rightarrow> int
     \<Rightarrow> Graph \<times> scaleableResourceInfo list \<Rightarrow> Graph \<times> scaleableResourceInfo list" where
  "flowStep namespace' mismatchReplicasCheckFn' orderedResourceInfos level' st =
     (case st of (g, previousLevelResourceInfos) \<Rightarrow>
        (let previousTaskID = EmptyTaskID in
         case orderedResourceInfos level' of
           Some resInfos \<Rightarrow>
             (case Add g \<lparr>TaskName = ScalingDependenciesAtLevel resInfos level',
                          Fn = createScaleTaskFn namespace' resInfos mismatchReplicasCheckFn'
                                 previousLevelResourceInfos,
                          Dependencies = NewTaskIDs [previousTaskID]\<rparr> of
                (g', taskID) \<Rightarrow> (g', copy previousLevelResourceInfos resInfos))
         | None \<Rightarrow> (g, previousLevelResourceInfos)))"

definition createResourceScaleFlow ::
  "string \<Rightarrow> string \<Rightarrow> scaleableResourceInfo list \<Rightarrow> mismatchReplicasCheckFn \<Rightarrow> Graph" where
  "createResourceScaleFlow namespace' flowName resourceInfos mismatchReplicasCheckFn' =
     (let levels = sortAndGetUniqueLevels resourceInfos;
          orderedResourceInfos = collectResourceInfosByLevel resourceInfos;
          g = NewGraph flowName
      in Compile (fst (fold (flowStep namespace' mismatchReplicasCheckFn' orderedResourceInfos)
                            levels (g, []))))"

text \<open>The sets of records to wait on that the closures inside a task function captured.\<close>

fun waitOnSets :: "TaskFn \<Rightarrow> scaleableResourceInfo list list" where
  "waitOnSets NilTaskFn = []"
| "waitOnSets (ScaleTaskFn ns r mm waitOn) = [waitOn]"
| "waitOnSets (Parallel fns) = concat (map waitOnSets fns)"

section \<open>The pod watcher (package weeder)\<close>

definition watchCreationRetryInterval :: Duration where
  "watchCreationRetryInterval = 500 * Millisecond"

text \<open>
  \<open>watch.EventType\<close> is a string type with five declared values. The object of an event
  is an interface value: a pointer to a Pod, a value of another type (named by its kind), or
  nil. The watch decodes every object it delivers, so a \<open>*v1.Pod\<close> it delivers points to a
  Pod.
\<close>

datatype EventType = Added | Modified | Deleted | Bookmark | Error | OtherEventType string

record Pod =
  PodNamespace :: string
  PodName :: string

datatype RuntimeObject = PodObject Pod | OtherObject string | NilObject



type_synonym NamespacedName = "string \<times> string"

text \<open>
  The watcher with what it reads of its weeder (the namespace and the context). The API
  behind the watch client has a state of type \<open>'a\<close>, on which the event handler acts; a
  \<open>watch.Interface\<close> is a handle of type \<open>'k\<close>. \<open>metav1.LabelSelectorAsSelector\<close> and the
  client's \<open>Watch\<close> are parameters; the first returns the string form of the selector it
  built, or an error with a nil selector.
\<close>

record ('a, 'k, 'sel) podWatcher =
  selector :: 'sel
  eventHandlerFn :: "NamespacedName \<Rightarrow> 'a \<Rightarrow> error option \<times> 'a"
  weederNamespace :: string
  weederCtx :: Context
  LabelSelectorAsSelector :: "'sel \<Rightarrow> error + string"
  Watch :: "'a \<Rightarrow> string \<Rightarrow> string \<Rightarrow> (error + 'k) \<times> 'a"

text \<open>
  What changes while the watcher runs: the clock, the field \<open>k8sWatch\<close> (\<open>None\<close> for nil),
  the state of the API, and the watches stopped so far.
\<close>

record ('a, 'k) watcherState = clocked +
  k8sWatch :: "'k option"
  apiWorld :: 'a
  stopped :: "'k list"

definition doCreateK8sWatch ::
  "('a, 'k, 'sel) podWatcher \<Rightarrow> 'a \<Rightarrow> (fault + (error + 'k)) \<times> 'a" where
  "doCreateK8sWatch pw a =
     (case LabelSelectorAsSelector pw (selector pw) of
        Inl err \<Rightarrow> (Inl NilPointerDereference, a)
      | Inr selectorString \<Rightarrow>
          (case Watch pw a (weederNamespace pw) selectorString of
             (Inl err, a') \<Rightarrow> (Inr (Inl err), a')
           | (Inr w, a') \<Rightarrow> (Inr (Inr w), a')))"

definition createK8sWatch ::
  "nat \<Rightarrow> ('a, 'k, 'sel) podWatcher \<Rightarrow> Context \<Rightarrow> ('a, 'k) watcherState
     \<Rightarrow> exitStatus \<times> ('a, 'k) watcherState \<times> nat" where
  "createK8sWatch fuel pw ctx s =
     RetryOnError fuel ctx
       (\<lambda>s. case doCreateK8sWatch pw (apiWorld s) of
               (Inl f, a') \<Rightarrow> (Inl f, s\<lparr>apiWorld := a'\<rparr>)
             | (Inr (Inl err), a') \<Rightarrow> (Inr (Some err), s\<lparr>apiWorld := a'\<rparr>)
             | (Inr (Inr w), a') \<Rightarrow> (Inr None, s\<lparr>apiWorld := a', k8sWatch := Some w\<rparr>))
       watchCreationRetryInterval s"










section \<open>The validator (internal/prober/validator.go)\<close>

text \<open>
  \<open>type validator struct { error }\<close> accumulates errors with \<open>multierr.Append\<close>; the model
  keeps the list of appended errors, \<open>[]\<close> for the nil error. Go's \<open>int\<close> is 32 or 64 bits
  wide depending on the platform; \<open>MustBeGreaterThan\<close> only compares two of them, which is
  the comparison of the integers they denote, so they are \<open>int\<close> here. The \<open>*int\<close> argument
  is an \<open>int option\<close>, \<open>None\<close> for the nil pointer, which the function dereferences
  unconditionally.
\<close>

type_synonym validator = "error list"

definition MustBeGreaterThan ::
  "validator \<Rightarrow> string \<Rightarrow> int option \<Rightarrow> int \<Rightarrow> fault + (bool \<times> validator)" where
  "MustBeGreaterThan v key val lowerLimit =
     (case val of
        None \<Rightarrow> Inl NilPointerDereference
      | Some x \<Rightarrow>
          if x < lowerLimit
          then Inr (False, v @ [MustHaveValueGreaterThan key lowerLimit])
          else Inr (True, v))"

definition IfPresentMustBeGreaterThan ::
  "validator \<Rightarrow> string \<Rightarrow> int option \<Rightarrow> int \<Rightarrow> fault + (bool \<times> validator)" where
  "IfPresentMustBeGreaterThan v key val lowerLimit =
     (if val \<noteq> None then MustBeGreaterThan v key val lowerLimit else Inr (True, v))"

section \<open>Reading the record of a run\<close>

text \<open>
  The calls of \<open>fn\<close> in a record of \<open>Retry\<close>, with what each returned; whether a call
  failed with an error that \<open>canRetry\<close> accepts; and the last call, if any.
\<close>

fun attempts :: "'a retryEvent list \<Rightarrow> (fault + ('a option \<times> error option)) list" where
  "attempts [] = []"
| "attempts (Attempt x # evs) = x # attempts evs"
| "attempts (Backoff d # evs) = attempts evs"

fun retryableFailure :: "(error \<Rightarrow> bool) \<Rightarrow> fault + ('a option \<times> error option) \<Rightarrow> bool" where
  "retryableFailure canRetry (Inr (v, Some e)) = canRetry e"
| "retryableFailure canRetry x = False"

fun lastAttempt ::
  "(fault + ('a option \<times> error option)) option \<Rightarrow> 'a retryEvent list
     \<Rightarrow> (fault + ('a option \<times> error option)) option" where
  "lastAttempt prev [] = prev"
| "lastAttempt prev (Attempt x # evs) = lastAttempt (Some x) evs"
| "lastAttempt prev (Backoff d # evs) = lastAttempt prev evs"

text \<open>
  A record in which the backoff is entered after each call that failed with an error that
  may be retried, and after no other call: any other call is the last thing in the record.
\<close>

fun backoffAfterEachRetryableFailure :: "(error \<Rightarrow> bool) \<Rightarrow> 'a retryEvent list \<Rightarrow> bool" where
  "backoffAfterEachRetryableFailure canRetry [] = True"
| "backoffAfterEachRetryableFailure canRetry [Attempt x] = (\<not> retryableFailure canRetry x)"
| "backoffAfterEachRetryableFailure canRetry (Attempt x # Backoff d # evs) =
     (retryableFailure canRetry x \<and> backoffAfterEachRetryableFailure canRetry evs)"
| "backoffAfterEachRetryableFailure canRetry evs = False"

text \<open>Whether a record ends with a backoff (\<open>b\<close> says so for what came before it).\<close>

fun lastIsBackoff :: "bool \<Rightarrow> 'a retryEvent list \<Rightarrow> bool" where
  "lastIsBackoff b [] = b"
| "lastIsBackoff b (Attempt x # evs) = lastIsBackoff False evs"
| "lastIsBackoff b (Backoff d # evs) = lastIsBackoff True evs"

text \<open>
  What \<open>Retry\<close> returns, given the bound on the attempts, whether the context is done
  when it returns, the last call of \<open>fn\<close> and whether a backoff followed it. With no call
  at all: the zero value, and the error of the context if an attempt was allowed and the
  context is done, no error otherwise. After a panic: that panic. After a success: its
  value. After a failed call with no backoff behind it: its error. After a failed call
  and a backoff: the error of the context if the context is done, and otherwise the value
  and the error of that call.
\<close>

fun resultCarried ::
  "Context \<Rightarrow> int \<Rightarrow> bool \<Rightarrow> (fault + ('a option \<times> error option)) option \<Rightarrow> bool
     \<Rightarrow> fault + 'a RetryResult" where
  "resultCarried ctx numAttempts done None b =
     Inr \<lparr>Value = None,
          Err = (if 1 \<le> numAttempts \<and> done then Some (cause ctx) else None)\<rparr>"
| "resultCarried ctx numAttempts done (Some (Inl f)) b = Inl f"
| "resultCarried ctx numAttempts done (Some (Inr (v, None))) b = Inr \<lparr>Value = v, Err = None\<rparr>"
| "resultCarried ctx numAttempts done (Some (Inr (v, Some e))) b =
     (if b then
        if done then Inr \<lparr>Value = None, Err = Some (cause ctx)\<rparr>
        else Inr \<lparr>Value = v, Err = Some e\<rparr>
      else Inr \<lparr>Value = None, Err = Some e\<rparr>)"

text \<open>
  A record read against the function and the clock, from a state on: each call in it is
  made while the context is not done and holds what \<open>fn\<close> returns in the state reached,
  and each backoff in it is the \<open>select\<close> on the context and the timer in the state
  reached, with the time spent there. The result is the state at the end of the record, or
  \<open>None\<close> when the record is not such a run.
\<close>

fun replay ::
  "Context \<Rightarrow> ('m clocked_scheme \<Rightarrow> (fault + ('a option \<times> error option)) \<times> 'm clocked_scheme)
     \<Rightarrow> Duration \<Rightarrow> 'm clocked_scheme \<Rightarrow> 'a retryEvent list \<Rightarrow> 'm clocked_scheme option" where
  "replay ctx fn backOff s [] = Some s"
| "replay ctx fn backOff s (Attempt x # evs) =
     (if \<not> ctxDone ctx s \<and> fst (fn s) = x then replay ctx fn backOff (snd (fn s)) evs
      else None)"
| "replay ctx fn backOff s (Backoff d # evs) =
     (case selectDoneOrAfter ctx backOff s of
        (done, s2) \<Rightarrow> if d = now s2 - now s then replay ctx fn backOff s2 evs else None)"

text \<open>
  The context is done at or before the instant \<open>t'\<close>. A Deployment for which \<open>shouldScale\<close>
  returns false before it looks at any upstream resource: the annotation is set, or the
  replicas of its spec do not mismatch the target.
\<close>

definition doneBy :: "Context \<Rightarrow> nat \<Rightarrow> bool" where
  "doneBy ctx t' = (case doneAt ctx of None \<Rightarrow> False | Some t \<Rightarrow> t \<le> t')"

definition skipsScaling :: "Deployment \<Rightarrow> mismatchReplicasCheckFn \<Rightarrow> 32 word \<Rightarrow> bool" where
  "skipsScaling d mm targetReplicas =
     (isIgnoreScalingAnnotationSet d
      \<or> (case SpecReplicas d of None \<Rightarrow> False | Some n \<Rightarrow> \<not> mm n targetReplicas))"

text \<open>
  A task that declares the empty ID as its only dependency and whose closures wait on no
  record.
\<close>

definition unchained :: "Task \<Rightarrow> bool" where
  "unchained t =
     (Dependencies t = {EmptyTaskID} \<and> list_all (\<lambda>w. w = []) (waitOnSets (Fn t)))"



section \<open>Inputs of the examples\<close>

text \<open>A function that fails with the same error at every call, and takes no time.\<close>

definition conflict :: "clocked \<Rightarrow> (fault + (unit option \<times> error option)) \<times> clocked" where
  "conflict s = (Inr (None, Some (OtherError ''conflict'')), s)"

text \<open>A function that succeeds at every call, and takes no time.\<close>

definition succeeds :: "clocked \<Rightarrow> (fault + (unit option \<times> error option)) \<times> clocked" where
  "succeeds s = (Inr (Some (), None), s)"

text \<open>
  A watcher whose API refuses every watch, under a context that is done at time 10, and the
  state in which a watcher starts.
\<close>

definition unavailable :: "(unit, unit, unit) podWatcher" where
  "unavailable =
     \<lparr>selector = (),
      eventHandlerFn = (\<lambda>key a. (None, a)),
      weederNamespace = ''shoot--test'',
      weederCtx = \<lparr>doneAt = Some 10, cause = ContextCanceled\<rparr>,
      LabelSelectorAsSelector = (\<lambda>sel. Inr ''app=etcd''),
      Watch = (\<lambda>a ns sel. (Inl (OtherError ''unavailable''), a))\<rparr>"

definition initialWatcherState :: "(unit, unit) watcherState" where
  "initialWatcherState = \<lparr>now = 0, k8sWatch = None, apiWorld = (), stopped = []\<rparr>"

text \<open>
  The records of scaler\_test.go: three Deployments, each at a level and with a target number
  of replicas.
\<close>

definition defaultInitialDelay :: Duration where
  "defaultInitialDelay = 10 * Millisecond"

definition defaultTimeout :: Duration where
  "defaultTimeout = 20 * Millisecond"

definition mcmRef :: CrossVersionObjectReference where
  "mcmRef = \<lparr>Kind = ''Deployment'', Name = ''machine-controller-manager'', APIVersion = ''apps/v1''\<rparr>"

definition kcmRef :: CrossVersionObjectReference where
  "kcmRef = \<lparr>Kind = ''Deployment'', Name = ''kube-controller-manager'', APIVersion = ''apps/v1''\<rparr>"

definition caRef :: CrossVersionObjectReference where
  "caRef = \<lparr>Kind = ''Deployment'', Name = ''cluster-autoscaler'', APIVersion = ''apps/v1''\<rparr>"

definition resourceInfoAt ::
  "CrossVersionObjectReference \<Rightarrow> int \<Rightarrow> 32 word \<Rightarrow> scaleableResourceInfo" where
  "resourceInfoAt r l n =
     \<lparr>ref = r, level = l, initialDelay = defaultInitialDelay, timeout = defaultTimeout,
      replicas = n\<rparr>"

text \<open>
  A cluster for the examples: the Deployments of one namespace by name, as the API server
  of the tests holds them, with the reads and the update of the scale subresource on it;
  a Deployment with given annotations and replicas; the state before the first call; and a
  context that is never done.
\<close>

type_synonym deployments = "string \<rightharpoonup> Deployment"

definition testScaler :: "deployments deploymentScaler" where
  "testScaler =
     \<lparr>namespace = ''default'',
      scaler =
        \<lparr>ScaleGet = (\<lambda>c gr name'.
             case c name' of
               None \<Rightarrow> Inl (NotFound name')
             | Some d \<Rightarrow>
                 Inr \<lparr>ScaleName = name',
                      ScaleSpecReplicas = (case SpecReplicas d of None \<Rightarrow> 0 | Some n \<Rightarrow> n)\<rparr>),
         ScaleUpdate = (\<lambda>c gr sc.
             case c (ScaleName sc) of
               None \<Rightarrow> (Inl (NotFound (ScaleName sc)), c)
             | Some d \<Rightarrow>
                 (Inr sc, c(ScaleName sc \<mapsto> d\<lparr>SpecReplicas := Some (ScaleSpecReplicas sc)\<rparr>)))\<rparr>,
      client =
        \<lparr>Get = (\<lambda>c ns name'.
             case c name' of None \<Rightarrow> Inl (NotFound name') | Some d \<Rightarrow> Inr d),
         ParseGroupVersion = (\<lambda>apiVersion. (''apps'', ''v1'')),
         RESTMapping = (\<lambda>gk version. Inr (''apps'', ''deployments''))\<rparr>\<rparr>"

definition deploymentWith :: "string \<Rightarrow> (string \<rightharpoonup> string) \<Rightarrow> 32 word \<Rightarrow> Deployment" where
  "deploymentWith name' annotations n =
     \<lparr>DeploymentName = name', Annotations = annotations, SpecReplicas = Some n, StatusReplicas = n\<rparr>"

definition worldOf :: "deployments \<Rightarrow> deployments world" where
  "worldOf c = \<lparr>now = 0, cluster = c, calls = []\<rparr>"

definition never :: Context where
  "never = \<lparr>doneAt = None, cause = ContextCanceled\<rparr>"

definition annotated :: deployments where
  "annotated = [''kube-controller-manager'' \<mapsto>
                  deploymentWith ''kube-controller-manager''
                    [ignoreScalingAnnotationKey \<mapsto> ''true''] 1]"

definition running :: deployments where
  "running = [''kube-controller-manager'' \<mapsto>
                deploymentWith ''kube-controller-manager'' Map.empty 1]"

definition settled :: deployments where
  "settled = [''kube-controller-manager'' \<mapsto>
                deploymentWith ''kube-controller-manager'' Map.empty 0]"






section \<open>Properties of the validator\<close>

text \<open>
  C10. For a non-nil pointer to \<open>x\<close> and every \<open>lowerLimit\<close>, \<open>MustBeGreaterThan\<close> returns
  true exactly when \<open>x \<ge> lowerLimit\<close>: at \<open>x = lowerLimit\<close> it returns true and leaves the
  validator's errors as they were, and whenever it returns false it has appended one error
  to the validator. (The nil pointer is dereferenced: the call panics.)
\<close>

theorem MustBeGreaterThan_iff_ge:
  "MustBeGreaterThan v key (Some x) lowerLimit =
     Inr (lowerLimit \<le> x,
          if lowerLimit \<le> x then v else v @ [MustHaveValueGreaterThan key lowerLimit])
   \<and> MustBeGreaterThan v key (Some lowerLimit) lowerLimit = Inr (True, v)
   \<and> MustBeGreaterThan v key None lowerLimit = Inl NilPointerDereference"
  by (simp add: MustBeGreaterThan_def)

theorem MustBeGreaterThan_iff_ge_witness:
  "MustBeGreaterThan [] ''probeTimeout'' (Some 0) 0 = Inr (True, [])
   \<and> MustBeGreaterThan [] ''probeTimeout'' (Some (-1)) 0
       = Inr (False, [MustHaveValueGreaterThan ''probeTimeout'' 0])"
  using MustBeGreaterThan_iff_ge [of "[]" "''probeTimeout''" 0 0]
        MustBeGreaterThan_iff_ge [of "[]" "''probeTimeout''" "-1" 0]
  by simp

section \<open>Properties of the bounded retry\<close>

declare RetryLoop.simps [simp del]

text \<open>After the \<open>select\<close>, the context is done exactly when its branch was taken.\<close>

lemma selectDoneOrAfter_ctxDone:
  "selectDoneOrAfter ctx d s1 = (b, s2) \<Longrightarrow> ctxDone ctx s2 = b"
  by (auto simp: selectDoneOrAfter_def ctxDone_def split: option.splits if_splits)

text \<open>
  The loop from iteration \<open>i\<close> on: it calls \<open>fn\<close> at most once for each iteration left,
  and enters the backoff after exactly the calls that failed with an error that may be
  retried.
\<close>

lemma RetryLoop_invariant:
  "RetryLoop ctx fn numAttempts backOff canRetry i result err s = (r, s', evs)
   \<Longrightarrow> length (attempts evs) \<le> nat (numAttempts + 1 - i)
       \<and> backoffAfterEachRetryableFailure canRetry evs"
proof (induction ctx fn numAttempts backOff canRetry i result err s arbitrary: r s' evs
       rule: RetryLoop.induct)
  case (1 ctx fn numAttempts backOff canRetry i result err s)
  show ?case
  proof (cases "i \<le> numAttempts \<and> \<not> ctxDone ctx s")
    case False
    with "1.prems" show ?thesis
      by (subst (asm) RetryLoop.simps) (auto split: if_splits)
  next
    case True
    obtain x s1 where fn: "fn s = (x, s1)" by force
    obtain b s2 where sel: "selectDoneOrAfter ctx backOff s1 = (b, s2)" by force
    show ?thesis
    proof (cases "\<exists>v e. x = Inr (v, Some e) \<and> canRetry e \<and> \<not> b")
      case False
      with True fn sel "1.prems"(1) show ?thesis
        by (subst (asm) RetryLoop.simps) (auto split: if_splits sum.splits option.splits)
    next
      case retry: True
      then obtain v e where x: "x = Inr (v, Some e)" "canRetry e" "\<not> b" by blast
      obtain r2 s3 evs2 where rec:
        "RetryLoop ctx fn numAttempts backOff canRetry (i + 1) v (Some e) s2 = (r2, s3, evs2)"
        by (metis prod_cases3)
      have ih: "length (attempts evs2) \<le> nat (numAttempts + 1 - (i + 1))
          \<and> backoffAfterEachRetryableFailure canRetry evs2"
        using "1.IH" [of x s1 "(v, Some e)" v "Some e" e b s2 r2 s3 evs2]
              True fn sel x rec
        by simp
      have "(r, s', evs) = (r2, s3, Attempt (Inr (v, Some e)) # Backoff (now s2 - now s1) # evs2)"
        using True fn sel x rec "1.prems"(1)
        by (subst (asm) RetryLoop.simps) simp
      then have unfold: "evs = Attempt (Inr (v, Some e)) # Backoff (now s2 - now s1) # evs2"
        by simp
      have "length (attempts evs) \<le> nat (numAttempts + 1 - i)"
        using ih True unfold by auto
      moreover have "backoffAfterEachRetryableFailure canRetry evs"
        using ih x unfold by simp
      ultimately show ?thesis by blast
    qed
  qed
qed

text \<open>
  The loop from iteration \<open>i\<close> on, where \<open>prev\<close> is the last call before that iteration
  and \<open>b\<close> says that a backoff followed it: the result is the one that the record
  carries; a run that ends behind a backoff with the context not done has used up its
  attempts; the record is a run of \<open>fn\<close> and the clock up to the state left; and if an
  iteration is left and the context is not done, \<open>fn\<close> is called.
\<close>

lemma RetryLoop_result:
  "RetryLoop ctx fn numAttempts backOff canRetry i result err s = (r, s', evs)
   \<Longrightarrow> (prev = None \<and> \<not> b \<and> i = 1 \<and> result = None \<and> err = None)
       \<or> (\<exists>e. prev = Some (Inr (result, Some e)) \<and> err = Some e \<and> b \<and> \<not> ctxDone ctx s
                \<and> i \<le> numAttempts + 1)
   \<Longrightarrow> r = resultCarried ctx numAttempts (ctxDone ctx s') (lastAttempt prev evs)
             (lastIsBackoff b evs)
       \<and> (lastIsBackoff b evs \<and> \<not> ctxDone ctx s'
            \<longrightarrow> length (attempts evs) = nat (numAttempts + 1 - i))
       \<and> replay ctx fn backOff s evs = Some s'
       \<and> (i \<le> numAttempts \<and> \<not> ctxDone ctx s \<longrightarrow> evs \<noteq> [])"
proof (induction ctx fn numAttempts backOff canRetry i result err s arbitrary: r s' evs prev b
       rule: RetryLoop.induct)
  case (1 ctx fn numAttempts backOff canRetry i result err s)
  show ?case
  proof (cases "i \<le> numAttempts \<and> \<not> ctxDone ctx s")
    case False
    with "1.prems" show ?thesis
      by (subst (asm) RetryLoop.simps) (auto split: if_splits)
  next
    case True
    obtain x s1 where fn: "fn s = (x, s1)" by force
    obtain c s2 where sel: "selectDoneOrAfter ctx backOff s1 = (c, s2)" by force
    note done2 = selectDoneOrAfter_ctxDone [OF sel]
    show ?thesis
    proof (cases "\<exists>v e. x = Inr (v, Some e) \<and> canRetry e \<and> \<not> c")
      case False
      with True fn sel done2 "1.prems"(1) show ?thesis
        by (subst (asm) RetryLoop.simps) (auto split: if_splits sum.splits option.splits)
    next
      case retry: True
      then obtain v e where x: "x = Inr (v, Some e)" "canRetry e" "\<not> c" by blast
      obtain r2 s3 evs2 where rec:
        "RetryLoop ctx fn numAttempts backOff canRetry (i + 1) v (Some e) s2 = (r2, s3, evs2)"
        by (metis prod_cases3)
      have ih: "r2 = resultCarried ctx numAttempts (ctxDone ctx s3)
                       (lastAttempt (Some (Inr (v, Some e))) evs2) (lastIsBackoff True evs2)
          \<and> (lastIsBackoff True evs2 \<and> \<not> ctxDone ctx s3
               \<longrightarrow> length (attempts evs2) = nat (numAttempts + 1 - (i + 1)))
          \<and> replay ctx fn backOff s2 evs2 = Some s3"
        using "1.IH" [of x s1 "(v, Some e)" v "Some e" e c s2 r2 s3 evs2
                         "Some (Inr (v, Some e))" True]
              True fn sel x rec done2
        by simp
      have "(r, s', evs) = (r2, s3, Attempt (Inr (v, Some e)) # Backoff (now s2 - now s1) # evs2)"
        using True fn sel x rec "1.prems"(1)
        by (subst (asm) RetryLoop.simps) simp
      then have unfold: "evs = Attempt (Inr (v, Some e)) # Backoff (now s2 - now s1) # evs2"
        "r = r2" "s' = s3"
        by simp_all
      have "r = resultCarried ctx numAttempts (ctxDone ctx s') (lastAttempt prev evs)
                  (lastIsBackoff b evs)"
        using ih unfold by simp
      moreover have "lastIsBackoff b evs \<and> \<not> ctxDone ctx s'
            \<longrightarrow> length (attempts evs) = nat (numAttempts + 1 - i)"
        using ih unfold True by auto
      moreover have "replay ctx fn backOff s evs = Some s'"
        using ih unfold True fn sel x by simp
      moreover have "evs \<noteq> []"
        using unfold by simp
      ultimately show ?thesis by blast
    qed
  qed
qed

text \<open>Three runs: two failures that may be retried, a failure that may not, a success.\<close>

lemma Retry_conflict_twice:
  "Retry \<lparr>doneAt = None, cause = ContextCanceled\<rparr> conflict 2 100 AlwaysRetry \<lparr>now = 0\<rparr>
     = (Inr \<lparr>Value = None, Err = Some (OtherError ''conflict'')\<rparr>, \<lparr>now = 200\<rparr>,
        [Attempt (Inr (None, Some (OtherError ''conflict''))), Backoff 100,
         Attempt (Inr (None, Some (OtherError ''conflict''))), Backoff 100])"
  by (simp add: Retry_def RetryLoop.simps conflict_def AlwaysRetry_def ctxDone_def
        selectDoneOrAfter_def)

lemma Retry_conflict_rejected:
  "Retry \<lparr>doneAt = None, cause = ContextCanceled\<rparr> conflict 2 100 (\<lambda>err. False) \<lparr>now = 0\<rparr>
     = (Inr \<lparr>Value = None, Err = Some (OtherError ''conflict'')\<rparr>, \<lparr>now = 0\<rparr>,
        [Attempt (Inr (None, Some (OtherError ''conflict'')))])"
  by (simp add: Retry_def RetryLoop.simps conflict_def ctxDone_def)

lemma Retry_succeeds:
  "Retry \<lparr>doneAt = None, cause = ContextCanceled\<rparr> succeeds 2 100 AlwaysRetry \<lparr>now = 0\<rparr>
     = (Inr \<lparr>Value = Some (), Err = None\<rparr>, \<lparr>now = 0\<rparr>, [Attempt (Inr (Some (), None))])"
  by (simp add: Retry_def RetryLoop.simps succeeds_def ctxDone_def)

text \<open>
  C4, as the code has it. \<open>Retry\<close> calls \<open>fn\<close> at most \<open>numAttempts\<close> times, and at least
  once if an attempt is allowed and the context is not done at the start. Its record is a
  run of \<open>fn\<close> and the clock: every call is made while the context is not done. It enters
  the backoff after every call that failed with an error \<open>canRetry\<close> accepts, the last of
  the \<open>numAttempts\<close> calls included, and after no other call: a success, a panic or an
  error that \<open>canRetry\<close> rejects ends the run at once. The result is fixed by the end of
  the record: the value of a last call that succeeded; the error of a last call that
  \<open>canRetry\<close> rejected; behind a backoff, the error of the context if the context is done
  then, and otherwise the value and the error of the last call, and then all
  \<open>numAttempts\<close> calls have been made; with no call at all, the error of the context if
  an attempt was allowed, and the zero result otherwise.
\<close>

theorem Retry_attempts_backoffs_result:
  assumes "Retry ctx fn numAttempts backOff canRetry s = (r, s', evs)"
  shows "length (attempts evs) \<le> nat numAttempts
       \<and> backoffAfterEachRetryableFailure canRetry evs
       \<and> r = resultCarried ctx numAttempts (ctxDone ctx s') (lastAttempt None evs)
               (lastIsBackoff False evs)
       \<and> (lastIsBackoff False evs \<and> \<not> ctxDone ctx s'
            \<longrightarrow> length (attempts evs) = nat numAttempts)
       \<and> replay ctx fn backOff s evs = Some s'
       \<and> (1 \<le> numAttempts \<and> \<not> ctxDone ctx s \<longrightarrow> evs \<noteq> [])"
  using RetryLoop_invariant [of ctx fn numAttempts backOff canRetry 1 None None s r s' evs]
        RetryLoop_result [of ctx fn numAttempts backOff canRetry 1 None None s r s' evs None False]
        assms
  by (simp add: Retry_def)

theorem Retry_attempts_backoffs_result_witness:
  "fst (Retry \<lparr>doneAt = None, cause = ContextCanceled\<rparr> conflict 2 100 AlwaysRetry \<lparr>now = 0\<rparr>)
     = Inr \<lparr>Value = None, Err = Some (OtherError ''conflict'')\<rparr>
   \<and> length (attempts (snd (snd (Retry \<lparr>doneAt = None, cause = ContextCanceled\<rparr> conflict 2 100
                                     AlwaysRetry \<lparr>now = 0\<rparr>)))) = 2
   \<and> lastIsBackoff False (snd (snd (Retry \<lparr>doneAt = None, cause = ContextCanceled\<rparr> conflict 2 100
                                       AlwaysRetry \<lparr>now = 0\<rparr>)))
   \<and> fst (Retry \<lparr>doneAt = None, cause = ContextCanceled\<rparr> conflict 2 100 (\<lambda>err. False) \<lparr>now = 0\<rparr>)
       = Inr \<lparr>Value = None, Err = Some (OtherError ''conflict'')\<rparr>
   \<and> fst (Retry \<lparr>doneAt = None, cause = ContextCanceled\<rparr> succeeds 2 100 AlwaysRetry \<lparr>now = 0\<rparr>)
       = Inr \<lparr>Value = Some (), Err = None\<rparr>"
proof -
  note twice = Retry_attempts_backoffs_result [OF Retry_conflict_twice]
  note rejected = Retry_attempts_backoffs_result [OF Retry_conflict_rejected]
  note success = Retry_attempts_backoffs_result [OF Retry_succeeds]
  note r1 = twice [THEN conjunct2, THEN conjunct2, THEN conjunct1]
  note r2 = rejected [THEN conjunct2, THEN conjunct2, THEN conjunct1]
  note r3 = success [THEN conjunct2, THEN conjunct2, THEN conjunct1]
  have live: "\<not> ctxDone \<lparr>doneAt = None, cause = ContextCanceled\<rparr> \<lparr>now = 200\<rparr>"
    by (simp add: ctxDone_def)
  have behind: "lastIsBackoff False
                 [Attempt (Inr (None :: unit option, Some (OtherError ''conflict''))), Backoff 100,
                  Attempt (Inr (None, Some (OtherError ''conflict''))), Backoff 100]"
    by simp
  note n = twice [THEN conjunct2, THEN conjunct2, THEN conjunct2, THEN conjunct1, THEN mp,
                  OF conjI [OF behind live]]
  show ?thesis
    unfolding Retry_conflict_twice Retry_conflict_rejected Retry_succeeds
    using r1 [symmetric] r2 [symmetric] r3 [symmetric] n behind by simp
qed

text \<open>
  With two attempts allowed, a function that fails both times, a backoff of 100 and a
  context that is never done, \<open>Retry\<close> sleeps the backoff after the second, final call
  too: the last entry of its record is that sleep, and it returns the error of the
  second call at time 200.
\<close>

theorem Retry_sleeps_after_final_attempt:
  "snd (snd (Retry \<lparr>doneAt = None, cause = ContextCanceled\<rparr> conflict 2 100 AlwaysRetry \<lparr>now = 0\<rparr>))
     = [Attempt (Inr (None, Some (OtherError ''conflict''))), Backoff 100,
        Attempt (Inr (None, Some (OtherError ''conflict''))), Backoff 100]
   \<and> now (fst (snd (Retry \<lparr>doneAt = None, cause = ContextCanceled\<rparr> conflict 2 100 AlwaysRetry
                      \<lparr>now = 0\<rparr>))) = 200
   \<and> fst (Retry \<lparr>doneAt = None, cause = ContextCanceled\<rparr> conflict 2 100 AlwaysRetry \<lparr>now = 0\<rparr>)
       = Inr \<lparr>Value = None, Err = Some (OtherError ''conflict'')\<rparr>"
  by (simp add: Retry_conflict_twice)

section \<open>Sleeps and the done context\<close>

text \<open>
  With a function that takes no time, \<open>Retry\<close> never runs past the instant at which the
  context is done: each backoff ends there at the latest.
\<close>

lemma RetryLoop_not_past_done:
  "RetryLoop ctx fn numAttempts backOff canRetry i result err s = (r, s', evs)
   \<Longrightarrow> doneAt ctx = Some t \<Longrightarrow> \<forall>w. now (snd (fn w)) = now w
   \<Longrightarrow> now s' \<le> max (now s) t"
proof (induction ctx fn numAttempts backOff canRetry i result err s arbitrary: r s' evs
       rule: RetryLoop.induct)
  case (1 ctx fn numAttempts backOff canRetry i result err s)
  note d = "1.prems"(2) and fn0 = "1.prems"(3) [rule_format]
  obtain x s1 where fn: "fn s = (x, s1)" by force
  have s1: "now s1 = now s" using fn0 [of s] fn by simp
  obtain b s2 where sel: "selectDoneOrAfter ctx backOff s1 = (b, s2)" by force
  have s2: "now s2 \<le> max (now s) t"
    using sel s1 d by (auto simp: selectDoneOrAfter_def split: if_splits)
  show ?case
  proof (cases "i \<le> numAttempts \<and> \<not> ctxDone ctx s
                  \<and> (\<exists>v e. x = Inr (v, Some e) \<and> canRetry e \<and> \<not> b)")
    case False
    with fn sel s1 s2 "1.prems"(1) show ?thesis
      by (subst (asm) RetryLoop.simps) (auto split: if_splits sum.splits option.splits)
  next
    case True
    then obtain v e where x: "x = Inr (v, Some e)" "canRetry e" "\<not> b" by blast
    obtain r2 s3 evs2 where rec:
      "RetryLoop ctx fn numAttempts backOff canRetry (i + 1) v (Some e) s2 = (r2, s3, evs2)"
      by (metis prod_cases3)
    have ih: "now s3 \<le> max (now s2) t"
      using "1.IH" [of x s1 "(v, Some e)" v "Some e" e b s2 r2 s3 evs2]
            True fn sel x rec d "1.prems"(3)
      by simp
    have "(r, s', evs) = (r2, s3, Attempt (Inr (v, Some e)) # Backoff (now s2 - now s1) # evs2)"
      using True fn sel x rec "1.prems"(1)
      by (subst (asm) RetryLoop.simps) simp
    then show ?thesis using ih s2 by auto
  qed
qed

lemma Retry_not_past_done:
  assumes "doneAt ctx = Some t" "\<forall>w. now (snd (fn w)) = now w"
  shows "now (fst (snd (Retry ctx fn numAttempts backOff canRetry s))) \<le> max (now s) t"
proof -
  obtain r s' evs where run: "Retry ctx fn numAttempts backOff canRetry s = (r, s', evs)"
    by (metis prod_cases3)
  then have "now s' \<le> max (now s) t"
    using RetryLoop_not_past_done [of ctx fn numAttempts backOff canRetry 1 None None s r s' evs t]
          assms
    by (simp add: Retry_def)
  with run show ?thesis by simp
qed

text \<open>When the context is done during the backoff, the backoff ends at that instant.\<close>

lemma Retry_backoff_ends_when_done:
  assumes "doneAt ctx = Some t" "\<not> ctxDone ctx s" "fn s = (Inr (v, Some e), s1)" "canRetry e"
    "1 \<le> numAttempts" "t \<le> now s1 + nat backOff"
  shows "Retry ctx fn numAttempts backOff canRetry s =
           (Inr \<lparr>Value = None, Err = Some (cause ctx)\<rparr>, s1\<lparr>now := max (now s1) t\<rparr>,
            [Attempt (Inr (v, Some e)), Backoff (max (now s1) t - now s1)])"
  using assms by (simp add: Retry_def RetryLoop.simps selectDoneOrAfter_def)

text \<open>
  The sleep of \<open>RetryOnError\<close> lasts the whole interval; the done context is seen at the
  top of the next iteration.
\<close>

lemma RetryOnError_sleeps_whole_interval:
  assumes "doneAt ctx = Some t" "\<not> ctxDone ctx s" "retriableFn s = (Inr (Some e), s1)"
    "t \<le> now s1 + nat interval"
  shows "RetryOnError (Suc (Suc fuel)) ctx retriableFn interval s = (Returned, Sleep interval s1, 1)"
  using assms by (simp add: ctxDone_def Sleep_def)

text \<open>
  C9, as the code has it, for a context that is done at the instant \<open>t\<close>. The backoff of
  \<open>Retry\<close> observes the context: when the context is done before the backoff is over, the
  backoff ends at that instant and \<open>Retry\<close> returns the context's error; with a function
  that takes no time \<open>Retry\<close> returns no later than \<open>t\<close>. The sleep of \<open>RetryOnError\<close>
  between two attempts does not observe the context: after a failed call it lasts the whole
  interval, also when the context is done meanwhile, and the helper returns at the top of the
  next iteration, without another call of the function.
\<close>

theorem retry_sleeps_and_done_context:
  assumes "doneAt ctx = Some t"
  shows "(\<not> ctxDone ctx s \<and> fn s = (Inr (v, Some e), s1) \<and> canRetry e \<and> 1 \<le> numAttempts
            \<and> t \<le> now s1 + nat backOff
          \<longrightarrow> Retry ctx fn numAttempts backOff canRetry s =
                (Inr \<lparr>Value = None, Err = Some (cause ctx)\<rparr>, s1\<lparr>now := max (now s1) t\<rparr>,
                 [Attempt (Inr (v, Some e)), Backoff (max (now s1) t - now s1)]))
       \<and> ((\<forall>w. now (snd (fn w)) = now w)
          \<longrightarrow> now (fst (snd (Retry ctx fn numAttempts backOff canRetry s))) \<le> max (now s) t)
       \<and> (\<not> ctxDone ctx w \<and> retriableFn w = (Inr (Some e'), w1) \<and> t \<le> now w1 + nat interval
          \<longrightarrow> RetryOnError (Suc (Suc fuel)) ctx retriableFn interval w
                = (Returned, Sleep interval w1, 1))"
  using assms Retry_backoff_ends_when_done [of ctx t s fn v e s1 canRetry numAttempts backOff]
        Retry_not_past_done [of ctx t fn numAttempts backOff canRetry s]
        RetryOnError_sleeps_whole_interval [of ctx t w retriableFn e' w1 interval fuel]
  by blast

theorem retry_sleeps_and_done_context_witness:
  "Retry \<lparr>doneAt = Some 10, cause = ContextCanceled\<rparr> conflict 3 100 AlwaysRetry \<lparr>now = 0\<rparr>
     = (Inr \<lparr>Value = None, Err = Some ContextCanceled\<rparr>, \<lparr>now = 10\<rparr>,
        [Attempt (Inr (None, Some (OtherError ''conflict''))), Backoff 10])
   \<and> now (fst (snd (Retry \<lparr>doneAt = Some 10, cause = ContextCanceled\<rparr> conflict 3 100 AlwaysRetry
                      \<lparr>now = 0\<rparr>))) \<le> 10
   \<and> RetryOnError 2 \<lparr>doneAt = Some 10, cause = ContextCanceled\<rparr>
        (\<lambda>s :: clocked. (Inr (Some (OtherError ''unavailable'')), s)) watchCreationRetryInterval
        \<lparr>now = 0\<rparr>
       = (Returned, \<lparr>now = 500000000\<rparr>, 1)"
  using retry_sleeps_and_done_context
          [where ctx = "\<lparr>doneAt = Some 10, cause = ContextCanceled\<rparr>" and t = 10
             and s = "\<lparr>now = 0\<rparr>" and fn = conflict and v = None
             and e = "OtherError ''conflict''" and ?s1.0 = "\<lparr>now = 0\<rparr>"
             and canRetry = AlwaysRetry and numAttempts = 3 and backOff = 100
             and w = "\<lparr>now = 0\<rparr>"
             and retriableFn = "\<lambda>s :: clocked. (Inr (Some (OtherError ''unavailable'')), s)"
             and e' = "OtherError ''unavailable''" and ?w1.0 = "\<lparr>now = 0\<rparr>"
             and interval = watchCreationRetryInterval and fuel = 0]
  by (simp add: conflict_def AlwaysRetry_def ctxDone_def Sleep_def watchCreationRetryInterval_def
        Millisecond_def numeral_2_eq_2)

text \<open>
  The context of the watcher is done at time 10, while \<open>createK8sWatch\<close> sleeps after a
  refused watch; the call returns at time 500000000, after the whole
  \<open>watchCreationRetryInterval\<close>.
\<close>

theorem createK8sWatch_sleeps_past_done_context:
  "createK8sWatch 2 unavailable (weederCtx unavailable) initialWatcherState
   = (Returned, \<lparr>now = 500000000, k8sWatch = None, apiWorld = (), stopped = []\<rparr>, 1)"
  by (simp add: createK8sWatch_def unavailable_def initialWatcherState_def doCreateK8sWatch_def
        ctxDone_def Sleep_def watchCreationRetryInterval_def Millisecond_def numeral_2_eq_2)

section \<open>Properties of the compiled flow\<close>

lemma level_resourceInfoAt [simp]: "level (resourceInfoAt r l n) = l"
  by (simp add: resourceInfoAt_def)

lemma fold_append_map: "fold (\<lambda>x acc. acc @ [f x]) xs ys = ys @ map f xs"
  by (induction xs arbitrary: ys) auto

text \<open>
  What \<open>createScaleTaskFn\<close> returns: \<open>make([]flow.TaskFn, len(resourceInfos))\<close> gives a slice
  of that many nil functions, and the closures are appended behind them.
\<close>

lemma createScaleTaskFn_single: "createScaleTaskFn ns [r] mm w = NilTaskFn"
  by (simp add: createScaleTaskFn_def)

lemma createScaleTaskFn_several:
  "1 < length rs \<Longrightarrow> createScaleTaskFn ns rs mm w =
     Parallel (replicate (length rs) NilTaskFn @ map (\<lambda>r. ScaleTaskFn ns r mm w) rs)"
  by (auto simp: createScaleTaskFn_def fold_append_map)

lemma createScaleTaskFn_pair:
  "createScaleTaskFn ns [r1, r2] mm w =
     Parallel [NilTaskFn, NilTaskFn, ScaleTaskFn ns r1 mm w, ScaleTaskFn ns r2 mm w]"
  by (simp add: createScaleTaskFn_several numeral_2_eq_2)


text \<open>
  For every list of records, the slice \<open>previousLevelResourceInfos\<close> stays empty through
  the loop of \<open>createResourceScaleFlow\<close>, so every closure of every task waits on no
  record, and every task declares the empty ID as its only dependency.
\<close>

lemma waitOnSets_createScaleTaskFn:
  "x \<in> set (waitOnSets (createScaleTaskFn ns rs mm w)) \<Longrightarrow> x = w"
proof (cases "length rs \<le> 1")
  case True
  then consider "rs = []" | r where "rs = [r]"
    by (cases rs) auto
  then show "x \<in> set (waitOnSets (createScaleTaskFn ns rs mm w)) \<Longrightarrow> x = w"
    by cases (simp_all add: createScaleTaskFn_def)
next
  case False
  then have "1 < length rs" by simp
  then show "x \<in> set (waitOnSets (createScaleTaskFn ns rs mm w)) \<Longrightarrow> x = w"
    by (auto simp: createScaleTaskFn_several split: if_splits)
qed

lemma flowStep_previous_empty:
  "snd (flowStep ns mm ord l (g, [])) = []"
  by (simp add: flowStep_def copy_def Add_def split: option.splits)

lemma fold_flowStep_previous_empty:
  "snd (fold (flowStep ns mm ord) ls (g, [])) = []"
proof (induction ls arbitrary: g)
  case Nil
  show ?case by simp
next
  case (Cons l ls)
  obtain g' where "flowStep ns mm ord l (g, []) = (g', [])"
    using flowStep_previous_empty [of ns mm ord l g] by (metis prod.collapse)
  then show ?case using Cons.IH [of g'] by simp
qed

lemma fold_flowStep_tasks:
  "list_all unchained (tasks g)
   \<Longrightarrow> list_all unchained (tasks (fst (fold (flowStep ns mm ord) ls (g, []))))"
proof (induction ls arbitrary: g)
  case Nil
  then show ?case by simp
next
  case (Cons l ls)
  obtain g' where step: "flowStep ns mm ord l (g, []) = (g', [])"
    using flowStep_previous_empty [of ns mm ord l g] by (metis prod.collapse)
  have "list_all unchained (tasks g')"
    using step Cons.prems
    by (auto simp: flowStep_def Add_def NewTaskIDs_def unchained_def list_all_iff
             split: option.splits)
       (metis waitOnSets_createScaleTaskFn)
  then show ?case using Cons.IH [of g'] step by simp
qed

lemma createResourceScaleFlow_all_tasks:
  "list_all unchained (tasks (createResourceScaleFlow ns name rs mm))"
  unfolding createResourceScaleFlow_def Let_def Compile_def
  by (rule fold_flowStep_tasks) (simp add: NewGraph_def)

text \<open>The compiled flow has one task for each level that occurs in the records.\<close>

lemma fold_flowStep_length:
  "length (tasks (fst (fold (flowStep ns mm ord) ls st)))
     = length (tasks (fst st)) + length (filter (\<lambda>l. ord l \<noteq> None) ls)"
proof (induction ls arbitrary: st)
  case Nil
  show ?case by simp
next
  case (Cons l ls)
  have "length (tasks (fst (flowStep ns mm ord l st)))
          = length (tasks (fst st)) + (if ord l \<noteq> None then 1 else 0)"
    by (cases st) (auto simp: flowStep_def Add_def split: option.splits)
  then show ?case using Cons.IH [of "flowStep ns mm ord l st"] by simp
qed

lemma dom_fold_collect:
  "dom (fold (\<lambda>resInfo resInfosByLevel.
             case resInfosByLevel (level resInfo) of
               None \<Rightarrow> resInfosByLevel(level resInfo \<mapsto> [] @ [resInfo])
             | Some levelResInfos \<Rightarrow> resInfosByLevel(level resInfo \<mapsto> levelResInfos @ [resInfo]))
          rs m) = dom m \<union> level ` set rs"
  by (induction rs arbitrary: m) (auto split: option.splits)

lemma dom_collectResourceInfosByLevel:
  "dom (collectResourceInfosByLevel rs) = level ` set rs"
  by (simp add: collectResourceInfosByLevel_def dom_fold_collect)

lemma fold_uniqueLevels:
  fixes keys :: "int \<rightharpoonup> bool"
  assumes "dom keys = set levels" "distinct levels"
    and "fold (\<lambda>resInfo (levels, keys).
                        if keys (level resInfo) = None
                        then (levels @ [level resInfo], keys(level resInfo \<mapsto> True))
                        else (levels, keys)) rs (levels, keys) = (levels', keys')"
  shows "set levels' = set levels \<union> level ` set rs \<and> distinct levels'"
  using assms
proof (induction rs arbitrary: levels keys)
  case Nil
  then show ?case by simp
next
  case (Cons r rs)
  show ?case
  proof (cases "keys (level r) = None")
    case True
    then have new: "level r \<notin> set levels" using Cons.prems(1) by auto
    have "dom (keys(level r \<mapsto> True)) = set (levels @ [level r])"
      using Cons.prems(1) by simp
    moreover have "distinct (levels @ [level r])"
      using Cons.prems(2) new by simp
    moreover have "fold (\<lambda>resInfo (levels, keys).
                        if keys (level resInfo) = None
                        then (levels @ [level resInfo], keys(level resInfo \<mapsto> True))
                        else (levels, keys)) rs (levels @ [level r], keys(level r \<mapsto> True))
                     = (levels', keys')"
      using Cons.prems(3) True by simp
    ultimately have "set levels' = set (levels @ [level r]) \<union> level ` set rs \<and> distinct levels'"
      by (rule Cons.IH)
    then show ?thesis by auto
  next
    case False
    then have old: "level r \<in> set levels" using Cons.prems(1) by auto
    have "fold (\<lambda>resInfo (levels, keys).
                        if keys (level resInfo) = None
                        then (levels @ [level resInfo], keys(level resInfo \<mapsto> True))
                        else (levels, keys)) rs (levels, keys)
                     = (levels', keys')"
      using Cons.prems(3) False by simp
    with Cons.prems(1,2) have "set levels' = set levels \<union> level ` set rs \<and> distinct levels'"
      by (rule Cons.IH)
    then show ?thesis using old by auto
  qed
qed

lemma sortAndGetUniqueLevels_set_distinct:
  "set (sortAndGetUniqueLevels rs) = level ` set rs \<and> distinct (sortAndGetUniqueLevels rs)
   \<and> sorted (sortAndGetUniqueLevels rs)"
proof -
  obtain levels' keys' where run:
    "fold (\<lambda>resInfo (levels, keys).
                        if keys (level resInfo) = None
                        then (levels @ [level resInfo], keys(level resInfo \<mapsto> True))
                        else (levels, keys)) rs ([], Map.empty :: int \<rightharpoonup> bool) = (levels', keys')"
    by force
  have "set levels' = set [] \<union> level ` set rs \<and> distinct levels'"
    by (rule fold_uniqueLevels [OF _ _ run]) simp_all
  then show ?thesis
    by (simp add: sortAndGetUniqueLevels_def run)
qed

lemma createResourceScaleFlow_Len:
  "Len (createResourceScaleFlow ns name rs mm) = card (level ` set rs)"
proof -
  have "filter (\<lambda>l. collectResourceInfosByLevel rs l \<noteq> None) (sortAndGetUniqueLevels rs)
          = sortAndGetUniqueLevels rs"
    using sortAndGetUniqueLevels_set_distinct [of rs] dom_collectResourceInfosByLevel [of rs]
    by (auto simp: filter_id_conv)
  then have "Len (createResourceScaleFlow ns name rs mm) = length (sortAndGetUniqueLevels rs)"
    by (simp add: Len_def createResourceScaleFlow_def Compile_def NewGraph_def fold_flowStep_length)
  moreover have "card (set (sortAndGetUniqueLevels rs)) = length (sortAndGetUniqueLevels rs)"
    using sortAndGetUniqueLevels_set_distinct [of rs] distinct_card by blast
  ultimately show ?thesis using sortAndGetUniqueLevels_set_distinct [of rs] by simp
qed

text \<open>
  The flow of the three records of the test, the cluster autoscaler at level 1 and the two
  controller managers at level 0, for scaling down.
\<close>

lemma sortAndGetUniqueLevels_example:
  "sortAndGetUniqueLevels
     [resourceInfoAt caRef 1 0, resourceInfoAt mcmRef 0 0, resourceInfoAt kcmRef 0 0] = [0, 1]"
  by (simp add: sortAndGetUniqueLevels_def)

lemma createResourceScaleFlow_example:
  "createResourceScaleFlow ''default'' ''test''
     [resourceInfoAt caRef 1 0, resourceInfoAt mcmRef 0 0, resourceInfoAt kcmRef 0 0]
     ScaleDownReplicasMismatch
   = \<lparr>GraphName = ''test'',
      tasks =
        [\<lparr>TaskName = ScalingDependenciesAtLevel
                        [resourceInfoAt mcmRef 0 0, resourceInfoAt kcmRef 0 0] 0,
          Fn = Parallel
                 [NilTaskFn, NilTaskFn,
                  ScaleTaskFn ''default'' (resourceInfoAt mcmRef 0 0) ScaleDownReplicasMismatch [],
                  ScaleTaskFn ''default'' (resourceInfoAt kcmRef 0 0) ScaleDownReplicasMismatch []],
          Dependencies = {EmptyTaskID}\<rparr>,
         \<lparr>TaskName = ScalingDependenciesAtLevel [resourceInfoAt caRef 1 0] 1,
          Fn = NilTaskFn,
          Dependencies = {EmptyTaskID}\<rparr>]\<rparr>"
  by (simp add: createResourceScaleFlow_def sortAndGetUniqueLevels_example
        collectResourceInfosByLevel_def flowStep_def Add_def NewGraph_def Compile_def
        NewTaskIDs_def copy_def createScaleTaskFn_single createScaleTaskFn_pair)

lemma createResourceScaleFlow_example_up:
  "createResourceScaleFlow ''default'' ''scale-up''
     [resourceInfoAt caRef 0 1, resourceInfoAt mcmRef 1 1, resourceInfoAt kcmRef 1 1]
     ScaleUpReplicasMismatch
   = \<lparr>GraphName = ''scale-up'',
      tasks =
        [\<lparr>TaskName = ScalingDependenciesAtLevel [resourceInfoAt caRef 0 1] 0,
          Fn = NilTaskFn,
          Dependencies = {EmptyTaskID}\<rparr>,
         \<lparr>TaskName = ScalingDependenciesAtLevel
                        [resourceInfoAt mcmRef 1 1, resourceInfoAt kcmRef 1 1] 1,
          Fn = Parallel
                 [NilTaskFn, NilTaskFn,
                  ScaleTaskFn ''default'' (resourceInfoAt mcmRef 1 1) ScaleUpReplicasMismatch [],
                  ScaleTaskFn ''default'' (resourceInfoAt kcmRef 1 1) ScaleUpReplicasMismatch []],
          Dependencies = {EmptyTaskID}\<rparr>]\<rparr>"
  by (simp add: createResourceScaleFlow_def sortAndGetUniqueLevels_def
        collectResourceInfosByLevel_def flowStep_def Add_def NewGraph_def Compile_def
        NewTaskIDs_def copy_def createScaleTaskFn_single createScaleTaskFn_pair)

text \<open>
  C1, on the code. After the iteration for level 0 of the test's records the slice
  \<open>previousLevelResourceInfos\<close> is still empty (\<open>copy\<close> into the nil slice copies
  nothing), where the claim has the two records of level 0. In the flow for scaling up
  with the cluster autoscaler at level 0 and the two controller managers at level 1, the
  two closures of the task of level 1 wait on no record, where the claim has the record of
  level 0.
\<close>

theorem createResourceScaleFlow_waitOn_sets_empty:
  "snd (flowStep ''default'' ScaleDownReplicasMismatch
          (collectResourceInfosByLevel
             [resourceInfoAt caRef 1 0, resourceInfoAt mcmRef 0 0, resourceInfoAt kcmRef 0 0])
          0 (NewGraph ''test'', [])) = []
   \<and> map (\<lambda>t. waitOnSets (Fn t))
        (tasks (createResourceScaleFlow ''default'' ''scale-up''
                  [resourceInfoAt caRef 0 1, resourceInfoAt mcmRef 1 1, resourceInfoAt kcmRef 1 1]
                  ScaleUpReplicasMismatch))
       = [[], [[], []]]"
  by (simp add: flowStep_previous_empty createResourceScaleFlow_example_up)

text \<open>
  C2, on the code. The flow of the test's records has two tasks, one for each level, and
  each of them declares the empty task ID as its only dependency: the task of level 1 does
  not depend on the ID of the task of level 0.
\<close>

theorem createResourceScaleFlow_dependencies_empty_id:
  "Len (createResourceScaleFlow ''default'' ''test''
          [resourceInfoAt caRef 1 0, resourceInfoAt mcmRef 0 0, resourceInfoAt kcmRef 0 0]
          ScaleDownReplicasMismatch) = 2
   \<and> map TaskName
        (tasks (createResourceScaleFlow ''default'' ''test''
                  [resourceInfoAt caRef 1 0, resourceInfoAt mcmRef 0 0, resourceInfoAt kcmRef 0 0]
                  ScaleDownReplicasMismatch))
       = [ScalingDependenciesAtLevel [resourceInfoAt mcmRef 0 0, resourceInfoAt kcmRef 0 0] 0,
          ScalingDependenciesAtLevel [resourceInfoAt caRef 1 0] 1]
   \<and> map Dependencies
        (tasks (createResourceScaleFlow ''default'' ''test''
                  [resourceInfoAt caRef 1 0, resourceInfoAt mcmRef 0 0, resourceInfoAt kcmRef 0 0]
                  ScaleDownReplicasMismatch))
       = [{EmptyTaskID}, {EmptyTaskID}]"
  by (simp add: createResourceScaleFlow_example Len_def)

text \<open>
  C5, on the code. For one record \<open>createScaleTaskFn\<close> returns the first element of
  \<open>taskFns\<close>, which is a nil function and not the record's task function; for two records
  it returns the parallel composition of four functions, the first two of them nil.
\<close>

theorem createScaleTaskFn_leading_nil_functions:
  "createScaleTaskFn ns [r] mm w = NilTaskFn
   \<and> createScaleTaskFn ns [r1, r2] mm w =
       Parallel [NilTaskFn, NilTaskFn, ScaleTaskFn ns r1 mm w, ScaleTaskFn ns r2 mm w]"
  by (simp add: createScaleTaskFn_single createScaleTaskFn_pair)

section \<open>Properties of the scale action\<close>

text \<open>A fetch that fails ends \<open>scale\<close> with that error, after the one read.\<close>

lemma scale_fetch_error:
  assumes "Get (client ds) (cluster s) (namespace ds) (Name (ref r)) = Inl e"
  shows "scale ds ctx r mm w s =
           (Inr (Some e), s\<lparr>calls := calls s @ [GetDeploymentCall (namespace ds) (Name (ref r))]\<rparr>)"
  using assms by (simp add: scale_def GetDeploymentFor_def)

text \<open>What the sleep before scaling returns and leaves.\<close>

lemma SleepWithContext_result:
  "fst (SleepWithContext ctx d s) = (if doneBy ctx (now s + nat d) then Some (cause ctx) else None)"
  by (simp add: SleepWithContext_def selectDoneOrAfter_def doneBy_def split: option.splits)

lemma SleepWithContext_state:
  "cluster (snd (SleepWithContext ctx d s)) = cluster s
   \<and> calls (snd (SleepWithContext ctx d s)) = calls s
   \<and> (doneBy ctx (now s + nat d) \<longrightarrow> ctxDone ctx (snd (SleepWithContext ctx d s)))"
  by (simp add: SleepWithContext_def selectDoneOrAfter_def doneBy_def ctxDone_def
           split: option.splits)

lemma selectDoneOrAfter_done:
  "ctxDone ctx s \<Longrightarrow> selectDoneOrAfter ctx d s = (True, s\<lparr>now := now s\<rparr>)"
  by (auto simp: ctxDone_def selectDoneOrAfter_def split: option.splits)

lemma selectDoneOrAfter_never:
  "doneAt ctx = None \<Longrightarrow> selectDoneOrAfter ctx d s = (False, s\<lparr>now := now s + nat d\<rparr>)"
  by (simp add: selectDoneOrAfter_def)

text \<open>
  When \<open>shouldScale\<close> returns false at its first or second test, \<open>scale\<close> is the read of
  the Deployment and the sleep: no write, the cluster as it was, and the error of the
  context when the context was done before the end of the initial delay.
\<close>

lemma shouldScale_skips:
  "skipsScaling d mm n \<Longrightarrow> shouldScale ds d n mm w s = (Inr False, s)"
  by (auto simp: shouldScale_def skipsScaling_def split: option.splits)

lemma scale_skips:
  assumes "Get (client ds) (cluster s) (namespace ds) (Name (ref r)) = Inr d"
    and "skipsScaling d mm (replicas r)"
  shows "scale ds ctx r mm w s =
           (Inr (fst (SleepWithContext ctx (initialDelay r)
                        (s\<lparr>calls := calls s @ [GetDeploymentCall (namespace ds) (Name (ref r))]\<rparr>))),
            snd (SleepWithContext ctx (initialDelay r)
                        (s\<lparr>calls := calls s @ [GetDeploymentCall (namespace ds) (Name (ref r))]\<rparr>)))"
  using assms
  by (simp add: scale_def GetDeploymentFor_def shouldScale_skips split: prod.splits option.splits)

lemma writes_logged_read [simp]:
  "writes (s\<lparr>calls := calls s @ [GetDeploymentCall ns n]\<rparr>) = writes s"
  by (simp add: writes_def)

lemma scale_skips_frame:
  assumes "Get (client ds) (cluster s) (namespace ds) (Name (ref r)) = Inr d"
    and "skipsScaling d mm (replicas r)"
  shows "cluster (snd (scale ds ctx r mm w s)) = cluster s
       \<and> writes (snd (scale ds ctx r mm w s)) = writes s
       \<and> fst (scale ds ctx r mm w s)
           = Inr (if doneBy ctx (now s + nat (initialDelay r)) then Some (cause ctx) else None)
       \<and> (doneBy ctx (now s + nat (initialDelay r)) \<longrightarrow> ctxDone ctx (snd (scale ds ctx r mm w s)))"
  using SleepWithContext_state [of ctx "initialDelay r"
          "s\<lparr>calls := calls s @ [GetDeploymentCall (namespace ds) (Name (ref r))]\<rparr>"]
  by (simp add: scale_skips [OF assms] SleepWithContext_result writes_def)

text \<open>
  The task around it ends within its first attempt: with success, or with the error of the
  context, found done at the start, or in the sleep and again in the backoff.
\<close>

lemma scaleTask_skips:
  assumes fetch: "Get (client ds) (cluster s) (namespace ds) (Name (ref r)) = Inr d"
    and skip: "skipsScaling d mm (replicas r)"
  shows "cluster (snd (scaleTask ds b r mm w ctx s)) = cluster s
       \<and> writes (snd (scaleTask ds b r mm w ctx s)) = writes s
       \<and> fst (scaleTask ds b r mm w ctx s)
           = Inr (if doneBy ctx (now s + nat (initialDelay r)) then Some (cause ctx) else None)"
proof (cases "ctxDone ctx s")
  case True
  then have "doneBy ctx (now s + nat (initialDelay r))"
    by (auto simp: ctxDone_def doneBy_def split: option.splits)
  with True show ?thesis
    by (simp add: scaleTask_def Retry_def RetryLoop.simps defaultMaxResourceScalingAttempts_def)
next
  case False
  obtain x s1 where sc: "scale ds ctx r mm w s = (x, s1)" by force
  note frame = scale_skips_frame [OF fetch skip, of ctx w, unfolded sc, simplified]
  show ?thesis
  proof (cases "doneBy ctx (now s + nat (initialDelay r))")
    case True
    with frame have "ctxDone ctx s1" "x = Inr (Some (cause ctx))" by simp_all
    with False True sc frame show ?thesis
      by (simp add: scaleTask_def Retry_def RetryLoop.simps defaultMaxResourceScalingAttempts_def
            AlwaysRetry_def selectDoneOrAfter_done)
  next
    case live: False
    with frame have "x = Inr None" by simp
    with False live sc frame show ?thesis
      by (simp add: scaleTask_def Retry_def RetryLoop.simps defaultMaxResourceScalingAttempts_def)
  qed
qed

text \<open>Under a context that is never done, a fetch that fails is tried three times.\<close>

lemma scaleTask_fetch_error:
  assumes fetch: "Get (client ds) (cluster s) (namespace ds) (Name (ref r)) = Inl e"
    and never: "doneAt ctx = None"
  shows "scaleTask ds b r mm w ctx s =
           (Inr (Some e),
            s\<lparr>now := now s + nat b + nat b + nat b,
              calls := calls s @ [GetDeploymentCall (namespace ds) (Name (ref r)),
                                  GetDeploymentCall (namespace ds) (Name (ref r)),
                                  GetDeploymentCall (namespace ds) (Name (ref r))]\<rparr>)"
proof -
  have fails: "\<And>w'. cluster w' = cluster s \<Longrightarrow>
      scale ds ctx r mm w w' =
        (Inr (Some e), w'\<lparr>calls := calls w' @ [GetDeploymentCall (namespace ds) (Name (ref r))]\<rparr>)"
    using fetch by (simp add: scale_fetch_error)
  have live: "\<And>w'. \<not> ctxDone ctx w'"
    using never by (simp add: ctxDone_def)
  show ?thesis
    by (simp add: scaleTask_def Retry_def RetryLoop.simps defaultMaxResourceScalingAttempts_def
          AlwaysRetry_def fails live selectDoneOrAfter_never [OF never])
qed

lemma mismatch_irreflexive:
  "\<not> ScaleUpReplicasMismatch n n \<and> \<not> ScaleDownReplicasMismatch n n"
  by (simp add: ScaleUpReplicasMismatch_def ScaleDownReplicasMismatch_def)

text \<open>The reads of the examples.\<close>

lemma Get_annotated:
  "Get (client testScaler) (cluster (worldOf annotated)) (namespace testScaler)
     (Name (ref (resourceInfoAt kcmRef 0 0)))
   = Inr (deploymentWith ''kube-controller-manager'' [ignoreScalingAnnotationKey \<mapsto> ''true''] 1)"
  by (simp add: testScaler_def worldOf_def annotated_def resourceInfoAt_def kcmRef_def)

lemma Get_missing:
  "Get (client testScaler) (cluster (worldOf Map.empty)) (namespace testScaler)
     (Name (ref (resourceInfoAt kcmRef 0 0)))
   = Inl (NotFound ''kube-controller-manager'')"
  by (simp add: testScaler_def worldOf_def resourceInfoAt_def kcmRef_def)

lemma skips_annotated:
  "skipsScaling (deploymentWith ''kube-controller-manager'' [ignoreScalingAnnotationKey \<mapsto> ''true''] 1)
     mm n"
  by (simp add: skipsScaling_def isIgnoreScalingAnnotationSet_def deploymentWith_def)

text \<open>
  The model does scale: a running controller manager with one replica and no annotation
  is scaled down to zero by one update.
\<close>

lemma scaleTask_scales_down_example:
  "(case scaleTask testScaler (100 * Millisecond) (resourceInfoAt kcmRef 0 0)
          ScaleDownReplicasMismatch [] never (worldOf running) of
      (res, s') \<Rightarrow> (res, writes s', map_option SpecReplicas (cluster s' ''kube-controller-manager'')))
   = (Inr None, [ScaleUpdateCall (''apps'', ''deployments'') ''kube-controller-manager'' 0],
      Some (Some 0))"
  by (simp add: scaleTask_def scale_def Retry_def RetryLoop.simps GetDeploymentFor_def
        SleepWithContext_def selectDoneOrAfter_def shouldScale_def doScale_def getGroupResource_def
        isIgnoreScalingAnnotationSet_def ignoreScalingAnnotationKey_def
        defaultMaxResourceScalingAttempts_def ctxDone_def never_def testScaler_def worldOf_def
        running_def deploymentWith_def resourceInfoAt_def kcmRef_def ScaleDownReplicasMismatch_def
        word_sless_alt writes_def AlwaysRetry_def)

lemma Get_settled:
  "Get (client testScaler) (cluster (worldOf settled)) (namespace testScaler)
     (Name (ref (resourceInfoAt kcmRef 0 0)))
   = Inr (deploymentWith ''kube-controller-manager'' Map.empty 0)"
  by (simp add: testScaler_def worldOf_def settled_def resourceInfoAt_def kcmRef_def)

text \<open>
  C3, as the code has it. When the fetch of the workload named \<open>r.ref.name\<close> returns an
  error, the not-found error included, \<open>scale\<close> makes no write, leaves the cluster as it
  was and returns that error; the task around it, under a context that is never done,
  makes exactly three fetches and no other call, and reports the error.
\<close>

theorem scale_returns_fetch_error:
  assumes "Get (client ds) (cluster s) (namespace ds) (Name (ref r)) = Inl e"
  shows "scale ds ctx r mm w s =
           (Inr (Some e), s\<lparr>calls := calls s @ [GetDeploymentCall (namespace ds) (Name (ref r))]\<rparr>)
       \<and> writes (snd (scale ds ctx r mm w s)) = writes s
       \<and> cluster (snd (scale ds ctx r mm w s)) = cluster s
       \<and> (doneAt ctx = None
          \<longrightarrow> fst (scaleTask ds b r mm w ctx s) = Inr (Some e)
              \<and> writes (snd (scaleTask ds b r mm w ctx s)) = writes s
              \<and> cluster (snd (scaleTask ds b r mm w ctx s)) = cluster s
              \<and> calls (snd (scaleTask ds b r mm w ctx s))
                  = calls s @ [GetDeploymentCall (namespace ds) (Name (ref r)),
                               GetDeploymentCall (namespace ds) (Name (ref r)),
                               GetDeploymentCall (namespace ds) (Name (ref r))])"
  using assms scaleTask_fetch_error [of ds s r e ctx b mm w]
  by (simp add: scale_fetch_error writes_def)

theorem scale_returns_fetch_error_witness:
  "writes (snd (scale testScaler never (resourceInfoAt kcmRef 0 0) ScaleDownReplicasMismatch []
                  (worldOf Map.empty))) = []
   \<and> fst (scaleTask testScaler (100 * Millisecond) (resourceInfoAt kcmRef 0 0)
             ScaleDownReplicasMismatch [] never (worldOf Map.empty))
       = Inr (Some (NotFound ''kube-controller-manager''))
   \<and> writes (snd (scaleTask testScaler (100 * Millisecond) (resourceInfoAt kcmRef 0 0)
                     ScaleDownReplicasMismatch [] never (worldOf Map.empty))) = []
   \<and> calls (snd (scaleTask testScaler (100 * Millisecond) (resourceInfoAt kcmRef 0 0)
                    ScaleDownReplicasMismatch [] never (worldOf Map.empty)))
       = [GetDeploymentCall ''default'' ''kube-controller-manager'',
          GetDeploymentCall ''default'' ''kube-controller-manager'',
          GetDeploymentCall ''default'' ''kube-controller-manager'']"
  using scale_returns_fetch_error [OF Get_missing, where ctx = never
          and mm = ScaleDownReplicasMismatch and w = "[]" and b = "100 * Millisecond"]
  by (simp add: never_def worldOf_def writes_def testScaler_def resourceInfoAt_def kcmRef_def)

text \<open>
  The controller manager is not in the cluster: the fetch returns not-found, and \<open>scale\<close>
  returns that error, not success.
\<close>

theorem scale_not_found_is_an_error:
  "scale testScaler never (resourceInfoAt kcmRef 0 0) ScaleDownReplicasMismatch []
     (worldOf Map.empty)
   = (Inr (Some (NotFound ''kube-controller-manager'')),
      \<lparr>now = 0, cluster = Map.empty,
        calls = [GetDeploymentCall ''default'' ''kube-controller-manager'']\<rparr>)"
  using scale_fetch_error [OF Get_missing, where ctx = never and mm = ScaleDownReplicasMismatch
          and w = "[]"]
  by (simp add: worldOf_def testScaler_def resourceInfoAt_def kcmRef_def)

text \<open>
  C6, as the code has it. For a Deployment whose annotations map
  \<open>dependency-watchdog.gardener.cloud/ignore-scaling\<close> to \<open>true\<close>, the task makes no write
  and leaves the cluster as it was, whatever the mismatch predicate (so in both
  directions), the target, the records to wait on and the context. It reports success,
  unless the context is done before the initial delay of the record is over: then it
  reports the error of the context.
\<close>

theorem ignore_scaling_no_update:
  assumes "Get (client ds) (cluster s) (namespace ds) (Name (ref r)) = Inr d"
    and "Annotations d ignoreScalingAnnotationKey = Some ''true''"
  shows "cluster (snd (scaleTask ds b r mm w ctx s)) = cluster s
       \<and> writes (snd (scaleTask ds b r mm w ctx s)) = writes s
       \<and> fst (scaleTask ds b r mm w ctx s)
           = Inr (if doneBy ctx (now s + nat (initialDelay r)) then Some (cause ctx) else None)"
proof -
  have "skipsScaling d mm (replicas r)"
    using assms(2) by (simp add: skipsScaling_def isIgnoreScalingAnnotationSet_def)
  with assms(1) show ?thesis by (rule scaleTask_skips)
qed

theorem ignore_scaling_no_update_witness:
  "writes (snd (scaleTask testScaler (100 * Millisecond) (resourceInfoAt kcmRef 0 0)
                  ScaleDownReplicasMismatch [] never (worldOf annotated))) = []
   \<and> fst (scaleTask testScaler (100 * Millisecond) (resourceInfoAt kcmRef 0 0)
             ScaleDownReplicasMismatch [] never (worldOf annotated)) = Inr None"
  using ignore_scaling_no_update [OF Get_annotated, where b = "100 * Millisecond"
          and mm = ScaleDownReplicasMismatch and w = "[]" and ctx = never]
  by (simp add: deploymentWith_def worldOf_def writes_def doneBy_def never_def)

text \<open>
  The annotated controller manager has one replica and the target is zero; the context is
  already done when the task starts. \<open>Retry\<close> finds it done before its first attempt, and
  the task reports the error of the context, not success.
\<close>

theorem ignore_scaling_done_context:
  "fst (scaleTask testScaler (100 * Millisecond) (resourceInfoAt kcmRef 0 0)
          ScaleDownReplicasMismatch [] \<lparr>doneAt = Some 0, cause = ContextCanceled\<rparr>
          (worldOf annotated)) = Inr (Some ContextCanceled)"
  using scaleTask_skips [OF Get_annotated skips_annotated, where mm = ScaleDownReplicasMismatch
          and b = "100 * Millisecond" and w = "[]"
          and ctx = "\<lparr>doneAt = Some 0, cause = ContextCanceled\<rparr>"]
  by (simp add: doneBy_def worldOf_def)

text \<open>
  C7. In both directions the mismatch predicate is false at equality. So when the replicas
  of the workload's spec equal the target, \<open>scale\<close> and the task around it make no write
  and leave the cluster as it was; and the task run again on the state the first run left,
  under any context, makes no write and leaves the cluster as it was.
\<close>

theorem equal_replicas_no_write:
  assumes fetch: "Get (client ds) (cluster s) (namespace ds) (Name (ref r)) = Inr d"
    and eq: "SpecReplicas d = Some (replicas r)"
    and dir: "mm = ScaleUpReplicasMismatch \<or> mm = ScaleDownReplicasMismatch"
  shows "\<not> mm (replicas r) (replicas r)
       \<and> cluster (snd (scale ds ctx r mm w s)) = cluster s
       \<and> writes (snd (scale ds ctx r mm w s)) = writes s
       \<and> cluster (snd (scaleTask ds b r mm w ctx s)) = cluster s
       \<and> writes (snd (scaleTask ds b r mm w ctx s)) = writes s
       \<and> cluster (snd (scaleTask ds b r mm w ctx' (snd (scaleTask ds b r mm w ctx s)))) = cluster s
       \<and> writes (snd (scaleTask ds b r mm w ctx' (snd (scaleTask ds b r mm w ctx s)))) = writes s"
proof -
  have irr: "\<not> mm (replicas r) (replicas r)"
    using dir mismatch_irreflexive by auto
  then have skip: "skipsScaling d mm (replicas r)"
    using eq by (simp add: skipsScaling_def)
  note first = scaleTask_skips [OF fetch skip, of b w ctx]
  have fetch': "Get (client ds) (cluster (snd (scaleTask ds b r mm w ctx s))) (namespace ds)
                  (Name (ref r)) = Inr d"
    using first fetch by simp
  note again = scaleTask_skips [OF fetch' skip, of b w ctx']
  show ?thesis
    using irr scale_skips_frame [OF fetch skip, of ctx w] first again by simp
qed

theorem equal_replicas_no_write_witness:
  "\<not> ScaleDownReplicasMismatch 0 0
   \<and> writes (snd (scaleTask testScaler (100 * Millisecond) (resourceInfoAt kcmRef 0 0)
                     ScaleDownReplicasMismatch [] never (worldOf settled))) = []
   \<and> writes (snd (scaleTask testScaler (100 * Millisecond) (resourceInfoAt kcmRef 0 0)
                     ScaleDownReplicasMismatch [] never
                     (snd (scaleTask testScaler (100 * Millisecond) (resourceInfoAt kcmRef 0 0)
                             ScaleDownReplicasMismatch [] never (worldOf settled))))) = []"
  using equal_replicas_no_write [OF Get_settled, where mm = ScaleDownReplicasMismatch
          and b = "100 * Millisecond" and w = "[]" and ctx = never and ctx' = never]
  by (simp add: deploymentWith_def resourceInfoAt_def worldOf_def writes_def)

section \<open>Properties of the pod watcher\<close>









end
